theory Spec2Isabelle
  imports Complex_Main "HOL-Library.Word"
begin

section \<open>Numeric types\<close>

text \<open>
  The sources compute with C++ \<open>double\<close> (and \<open>float\<close>) values. The embedding reads
  them as real numbers: every arithmetic operation is exact, and the values NaN and
  infinity do not exist. Statements below are about this exact arithmetic; they say
  nothing about rounding. Integer counters (\<open>unsigned int\<close>) are 32-bit words, and
  the fixed-point components of a universal coordinate are 128-bit words.
\<close>

type_synonym double = real

record Vector3d =
  vx :: double
  vy :: double
  vz :: double

definition Vector3d_Zero :: Vector3d where
  "Vector3d_Zero = \<lparr>vx = 0, vy = 0, vz = 0\<rparr>"

definition Vector3d_UnitY :: Vector3d where
  "Vector3d_UnitY = \<lparr>vx = 0, vy = 1, vz = 0\<rparr>"

definition vadd :: "Vector3d \<Rightarrow> Vector3d \<Rightarrow> Vector3d" where
  "vadd a b = \<lparr>vx = vx a + vx b, vy = vy a + vy b, vz = vz a + vz b\<rparr>"

definition vsub :: "Vector3d \<Rightarrow> Vector3d \<Rightarrow> Vector3d" where
  "vsub a b = \<lparr>vx = vx a - vx b, vy = vy a - vy b, vz = vz a - vz b\<rparr>"

definition vneg :: "Vector3d \<Rightarrow> Vector3d" where
  "vneg a = \<lparr>vx = - vx a, vy = - vy a, vz = - vz a\<rparr>"

text \<open>\<open>v * s\<close>: a vector times a scalar.\<close>

definition vscale :: "Vector3d \<Rightarrow> double \<Rightarrow> Vector3d" where
  "vscale a s = \<lparr>vx = vx a * s, vy = vy a * s, vz = vz a * s\<rparr>"

text \<open>\<open>v / s\<close>: a vector divided by a scalar.\<close>

definition vdiv :: "Vector3d \<Rightarrow> double \<Rightarrow> Vector3d" where
  "vdiv a s = \<lparr>vx = vx a / s, vy = vy a / s, vz = vz a / s\<rparr>"

definition cross :: "Vector3d \<Rightarrow> Vector3d \<Rightarrow> Vector3d" where
  "cross a b = \<lparr>vx = vy a * vz b - vz a * vy b,
                vy = vz a * vx b - vx a * vz b,
                vz = vx a * vy b - vy a * vx b\<rparr>"

definition squaredNorm :: "Vector3d \<Rightarrow> double" where
  "squaredNorm a = vx a * vx a + vy a * vy a + vz a * vz a"

definition norm3 :: "Vector3d \<Rightarrow> double" where
  "norm3 a = sqrt (squaredNorm a)"

text \<open>
  Eigen's \<open>normalized()\<close> and \<open>normalize()\<close> (library code): the vector is divided
  by its length when the squared length is positive and left as it is otherwise.
\<close>

definition normalized :: "Vector3d \<Rightarrow> Vector3d" where
  "normalized a = (let z = squaredNorm a in if z > 0 then vdiv a (sqrt z) else a)"

section \<open>Universal coordinates (univcoord.h)\<close>

text \<open>
  Modelled from the spec: the type \<open>R128\<close> of celutil/r128.h is not among the
  sources. The spec describes it as a 128-bit fixed-point number of two 64-bit limbs,
  the integer and the fractional part, whose addition and subtraction are exact and
  closed under the type. It is a 128-bit word holding the value times \<open>2^64\<close> in two's
  complement; \<open>+\<close> and \<open>-\<close> are the word operations.
\<close>

type_synonym R128 = "128 word"

text \<open>
  Modelled from the spec: the conversions \<open>R128(double)\<close> and
  \<open>static_cast<double>(R128)\<close> of celutil/r128.h are not among the sources. A double
  of magnitude below \<open>2^63\<close> is converted by cutting the magnitude of \<open>v * 2^64\<close>
  down to an integer and restoring the sign; the way back divides the signed value of
  the word by \<open>2^64\<close>.
\<close>

definition R128_of_double :: "double \<Rightarrow> R128" where
  "R128_of_double v =
     (if v < 0 then - word_of_int \<lfloor>- v * 2 ^ 64\<rfloor> else word_of_int \<lfloor>v * 2 ^ 64\<rfloor>)"

text \<open>
  Modelled from the spec: \<open>static_cast<double>(R128)\<close> of celutil/r128.h, the fixed-point
  value as a double.
\<close>

definition double_of_R128 :: "R128 \<Rightarrow> double" where
  "double_of_R128 r = real_of_int (sint r) / 2 ^ 64"

text \<open>
  Modelled from the spec: the constants and unit conversions of celastro/astro.h are
  not among the sources; the spec names the units (kilometres, light years, micro light
  years). One light year is 9460730472580.8 km.
\<close>

definition KM_PER_LY :: double where
  "KM_PER_LY = 94607304725808 / 10"

text \<open>
  Modelled from the spec: \<open>astro::microLightYearsToKilometers\<close> of celastro/astro.h,
  micro light years to kilometres.
\<close>

definition microLightYearsToKilometers :: "double \<Rightarrow> double" where
  "microLightYearsToKilometers ly = ly * (KM_PER_LY * (1 / 1000000))"

text \<open>
  Modelled from the spec: \<open>astro::kilometersToMicroLightYears\<close> of celastro/astro.h,
  kilometres to micro light years.
\<close>

definition kilometersToMicroLightYears :: "double \<Rightarrow> double" where
  "kilometersToMicroLightYears km = km / (KM_PER_LY * (1 / 1000000))"

text \<open>
  The class \<open>UniversalCoord\<close>; its members \<open>x\<close>, \<open>y\<close>, \<open>z\<close> are the fields
  \<open>uc_x\<close>, \<open>uc_y\<close>, \<open>uc_z\<close>.
\<close>

record UniversalCoord =
  uc_x :: R128
  uc_y :: R128
  uc_z :: R128

text \<open>The constructor \<open>UniversalCoord(double, double, double)\<close>.\<close>

definition UniversalCoord_of_doubles :: "double \<Rightarrow> double \<Rightarrow> double \<Rightarrow> UniversalCoord" where
  "UniversalCoord_of_doubles a b c =
     \<lparr>uc_x = R128_of_double a, uc_y = R128_of_double b, uc_z = R128_of_double c\<rparr>"

text \<open>The constructor \<open>UniversalCoord(const Eigen::Vector3d&)\<close>.\<close>

definition UniversalCoord_of_vector :: "Vector3d \<Rightarrow> UniversalCoord" where
  "UniversalCoord_of_vector v = UniversalCoord_of_doubles (vx v) (vy v) (vz v)"

definition UniversalCoord_Zero :: UniversalCoord where
  "UniversalCoord_Zero = \<lparr>uc_x = 0, uc_y = 0, uc_z = 0\<rparr>"

text \<open>\<open>operator+\<close> and \<open>operator-\<close> on universal coordinates.\<close>

definition uc_plus :: "UniversalCoord \<Rightarrow> UniversalCoord \<Rightarrow> UniversalCoord" where
  "uc_plus uc0 uc1 = \<lparr>uc_x = uc_x uc0 + uc_x uc1, uc_y = uc_y uc0 + uc_y uc1, uc_z = uc_z uc0 + uc_z uc1\<rparr>"

definition uc_minus :: "UniversalCoord \<Rightarrow> UniversalCoord \<Rightarrow> UniversalCoord" where
  "uc_minus uc0 uc1 = \<lparr>uc_x = uc_x uc0 - uc_x uc1, uc_y = uc_y uc0 - uc_y uc1, uc_z = uc_z uc0 - uc_z uc1\<rparr>"

definition offsetKm :: "UniversalCoord \<Rightarrow> Vector3d \<Rightarrow> UniversalCoord" where
  "offsetKm this v =
     (let vUly = vscale v (kilometersToMicroLightYears 1)
      in uc_plus this (UniversalCoord_of_vector vUly))"

definition offsetFromKm :: "UniversalCoord \<Rightarrow> UniversalCoord \<Rightarrow> Vector3d" where
  "offsetFromKm this uc =
     vscale \<lparr>vx = double_of_R128 (uc_x this - uc_x uc),
             vy = double_of_R128 (uc_y this - uc_y uc),
             vz = double_of_R128 (uc_z this - uc_z uc)\<rparr>
            (microLightYearsToKilometers 1)"

definition offsetFromUly :: "UniversalCoord \<Rightarrow> UniversalCoord \<Rightarrow> Vector3d" where
  "offsetFromUly this uc =
     \<lparr>vx = double_of_R128 (uc_x this - uc_x uc),
      vy = double_of_R128 (uc_y this - uc_y uc),
      vz = double_of_R128 (uc_z this - uc_z uc)\<rparr>"

definition CreateKm :: "Vector3d \<Rightarrow> UniversalCoord" where
  "CreateKm v =
     (let vUly = vscale v (microLightYearsToKilometers 1)
      in UniversalCoord_of_doubles (vx vUly) (vy vUly) (vz vUly))"

definition CreateLy :: "Vector3d \<Rightarrow> UniversalCoord" where
  "CreateLy v =
     (let vUly = vscale v 1000000
      in UniversalCoord_of_doubles (vx vUly) (vy vUly) (vz vUly))"

definition CreateUly :: "Vector3d \<Rightarrow> UniversalCoord" where
  "CreateUly v = UniversalCoord_of_doubles (vx v) (vy v) (vz v)"

section \<open>Quaternions\<close>

text \<open>
  Eigen's \<open>Quaterniond\<close> (library code): the scalar part \<open>w\<close> and the vector part
  \<open>(x, y, z)\<close>, the Hamilton product, the conjugate, and the rotation of a vector
  \<open>q * v\<close>.
\<close>

record Quaterniond =
  qw :: double
  qx :: double
  qy :: double
  qz :: double

definition Quaterniond_Identity :: Quaterniond where
  "Quaterniond_Identity = \<lparr>qw = 1, qx = 0, qy = 0, qz = 0\<rparr>"

definition conjugate :: "Quaterniond \<Rightarrow> Quaterniond" where
  "conjugate q = \<lparr>qw = qw q, qx = - qx q, qy = - qy q, qz = - qz q\<rparr>"

definition qmul :: "Quaterniond \<Rightarrow> Quaterniond \<Rightarrow> Quaterniond" where
  "qmul a b =
     \<lparr>qw = qw a * qw b - qx a * qx b - qy a * qy b - qz a * qz b,
      qx = qw a * qx b + qx a * qw b + qy a * qz b - qz a * qy b,
      qy = qw a * qy b + qy a * qw b + qz a * qx b - qx a * qz b,
      qz = qw a * qz b + qz a * qw b + qx a * qy b - qy a * qx b\<rparr>"

definition qvec :: "Quaterniond \<Rightarrow> Vector3d" where
  "qvec q = \<lparr>vx = qx q, vy = qy q, vz = qz q\<rparr>"

definition qrotate :: "Quaterniond \<Rightarrow> Vector3d \<Rightarrow> Vector3d" where
  "qrotate q v =
     (let uv = cross (qvec q) v;
          uv2 = vadd uv uv
      in vadd (vadd v (vscale uv2 (qw q))) (cross (qvec q) uv2))"

text \<open>
  Modelled from the spec: \<open>math::XRotation\<close> and \<open>math::YRotation\<close> of
  celmath/geomutil.h are not among the sources; they are the quaternions of a rotation
  by the given angle about the x and the y axis.
\<close>

definition XRotation :: "double \<Rightarrow> Quaterniond" where
  "XRotation a = \<lparr>qw = cos (a / 2), qx = sin (a / 2), qy = 0, qz = 0\<rparr>"

text \<open>
  Modelled from the spec: \<open>math::YRotation\<close> of celmath/geomutil.h, the quaternion of a
  rotation by the given angle about the y axis.
\<close>

definition YRotation :: "double \<Rightarrow> Quaterniond" where
  "YRotation a = \<lparr>qw = cos (a / 2), qx = 0, qy = sin (a / 2), qz = 0\<rparr>"

section \<open>Rotation models (rotation.cpp)\<close>

text \<open>
  A \<open>RotationModel\<close> is read through its virtual methods \<open>isPeriodic\<close>,
  \<open>getPeriod\<close> and \<open>orientationAtTime\<close>, which are the fields of the record.
\<close>

record RotationModel =
  isPeriodic :: bool
  getPeriod :: double
  orientationAtTime :: "double \<Rightarrow> Quaterniond"

definition ANGULAR_VELOCITY_DIFF_DELTA :: double where
  "ANGULAR_VELOCITY_DIFF_DELTA = 1 / 1440"

definition chooseDiffTimeDelta :: "'a RotationModel_scheme \<Rightarrow> double" where
  "chooseDiffTimeDelta rm =
     (if isPeriodic rm then getPeriod rm / 10000 else ANGULAR_VELOCITY_DIFF_DELTA)"

text \<open>\<open>RotationModel::angularVelocityAtTime\<close>, the default implementation.\<close>

definition angularVelocityAtTime :: "'a RotationModel_scheme \<Rightarrow> double \<Rightarrow> Vector3d" where
  "angularVelocityAtTime rm tdb =
     (let dt = chooseDiffTimeDelta rm;
          q0 = orientationAtTime rm tdb;
          q1 = orientationAtTime rm (tdb + dt);
          dq = qmul (conjugate q1) q0
      in if \<bar>qw dq\<bar> > 99999999 / 100000000 then Vector3d_Zero
         else vscale (normalized (qvec dq)) (2 * arccos (qw dq) / dt))"

text \<open>
  A \<open>CachingRotationModel\<close> adds the hooks \<open>computeSpin\<close> and
  \<open>computeEquatorOrientation\<close>; \<open>orientationAtTime\<close> is the inherited accessor that
  reads through the cache.
\<close>

record CachingRotationModel = RotationModel +
  computeSpin :: "double \<Rightarrow> Quaterniond"
  computeEquatorOrientation :: "double \<Rightarrow> Quaterniond"

text \<open>\<open>CachingRotationModel::computeAngularVelocity\<close>.\<close>

definition computeAngularVelocity :: "'a CachingRotationModel_scheme \<Rightarrow> double \<Rightarrow> Vector3d" where
  "computeAngularVelocity rm tjd =
     (let dt = chooseDiffTimeDelta rm;
          q0 = orientationAtTime rm tjd;
          spin = computeSpin rm (tjd + dt);
          equator = computeEquatorOrientation rm (tjd + dt);
          q1 = qmul spin equator;
          dq = qmul (conjugate q1) q0
      in if \<bar>qw dq\<bar> > 99999999 / 100000000 then Vector3d_Zero
         else vscale (normalized (qvec dq)) (2 * arccos (qw dq) / dt))"

text \<open>\<open>UniformRotationModel\<close>: its members and its methods.\<close>

record UniformRotationModel =
  period :: double
  offset :: double
  epoch :: double
  inclination :: double
  ascendingNode :: double

definition UniformRotationModel_spin :: "UniformRotationModel \<Rightarrow> double \<Rightarrow> Quaterniond" where
  "UniformRotationModel_spin m tjd =
     (let rotations = (tjd - epoch m) / period m;
          wholeRotations = real_of_int \<lfloor>rotations\<rfloor>;
          remainder = rotations - wholeRotations;
          remainder' = remainder + 1 / 2
      in YRotation (- remainder' * 2 * pi - offset m))"

definition UniformRotationModel_equatorOrientationAtTime ::
  "UniformRotationModel \<Rightarrow> double \<Rightarrow> Quaterniond" where
  "UniformRotationModel_equatorOrientationAtTime m tjd =
     qmul (XRotation (- inclination m)) (YRotation (- ascendingNode m))"

definition UniformRotationModel_angularVelocityAtTime ::
  "UniformRotationModel \<Rightarrow> double \<Rightarrow> Vector3d" where
  "UniformRotationModel_angularVelocityAtTime m tdb =
     (let v = qrotate (conjugate (UniformRotationModel_equatorOrientationAtTime m tdb))
                      Vector3d_UnitY
      in vscale v (2 * pi / period m))"

section \<open>Selections and the frame graph (frame.cpp)\<close>

text \<open>
  Modelled from the spec: the classes \<open>Selection\<close> (celengine/selection.h) and
  \<open>Location\<close> (celengine/location.h) are not among the sources. The spec describes a
  selection as a discriminated reference to one of None, Star, Body, Location and
  DeepSkyObject that does not own the object it refers to. Stars, bodies and deep sky
  objects are referred to by a catalogue number; of a location the frame graph reads
  \<open>getParentBody()\<close>, which may be null. The accessors \<open>body()\<close>, \<open>star()\<close> and
  \<open>location()\<close> return a null pointer unless the selection is of that type.
\<close>

datatype Location = Location (getParentBody: "nat option")

text \<open>
  Modelled from the spec: the enumeration \<open>SelectionType\<close> of celengine/selection.h, the
  five kinds of selection the spec lists.
\<close>

datatype SelectionType =
    SelectionType_None
  | SelectionType_Star
  | SelectionType_Body
  | SelectionType_DeepSky
  | SelectionType_Location

text \<open>
  Modelled from the spec: the class \<open>Selection\<close> of celengine/selection.h, a reference to
  nothing, a star, a body, a deep sky object or a location.
\<close>

datatype Selection =
    Selection_None
  | Selection_Star nat
  | Selection_Body nat
  | Selection_DeepSky nat
  | Selection_Location Location

text \<open>
  Modelled from the spec: \<open>Selection::getType\<close> of celengine/selection.h. Of the
  accessors below, \<open>None\<close> is the null pointer.
\<close>

fun getType :: "Selection \<Rightarrow> SelectionType" where
  "getType Selection_None = SelectionType_None"
| "getType (Selection_Star _) = SelectionType_Star"
| "getType (Selection_Body _) = SelectionType_Body"
| "getType (Selection_DeepSky _) = SelectionType_DeepSky"
| "getType (Selection_Location _) = SelectionType_Location"

text \<open>Modelled from the spec: \<open>Selection::body()\<close>.\<close>

fun Selection_body :: "Selection \<Rightarrow> nat option" where
  "Selection_body (Selection_Body b) = Some b"
| "Selection_body _ = None"

text \<open>Modelled from the spec: \<open>Selection::star()\<close>.\<close>

fun Selection_star :: "Selection \<Rightarrow> nat option" where
  "Selection_star (Selection_Star s) = Some s"
| "Selection_star _ = None"

text \<open>Modelled from the spec: \<open>Selection::location()\<close>.\<close>

fun Selection_location :: "Selection \<Rightarrow> Location option" where
  "Selection_location (Selection_Location l) = Some l"
| "Selection_location _ = None"

datatype FrameType = PositionFrame | OrientationFrame

text \<open>
  The classes derived from \<open>ReferenceFrame\<close>, each with its members, and the class
  \<open>FrameVector\<close>. A \<open>BodyMeanEquatorFrame\<close> holds its centre, its equator object,
  \<open>freezeEpoch\<close> and \<open>isFrozen\<close>; a \<open>TwoVectorFrame\<close> its centre, the primary vector
  and axis and the secondary vector and axis. The frame of a constant vector is a
  shared pointer that may be null.
\<close>

datatype Frame =
    J2000EclipticFrame Selection
  | J2000EquatorFrame Selection
  | BodyFixedFrame Selection Selection
  | BodyMeanEquatorFrame Selection Selection double bool
  | TwoVectorFrame Selection FrameVector int FrameVector int
and FrameVector =
    RelativePosition Selection Selection
  | RelativeVelocity Selection Selection
  | ConstantVector Vector3d "Frame option"

fun getCenter :: "Frame \<Rightarrow> Selection" where
  "getCenter (J2000EclipticFrame center) = center"
| "getCenter (J2000EquatorFrame center) = center"
| "getCenter (BodyFixedFrame center _) = center"
| "getCenter (BodyMeanEquatorFrame center _ _ _) = center"
| "getCenter (TwoVectorFrame center _ _ _ _) = center"

text \<open>
  Modelled from the spec: the class \<open>Body\<close> (celengine/body.h) is not among the
  sources. Of a body the frame graph reads \<open>getOrbitFrame(0.0)\<close> and
  \<open>getBodyFrame(0.0)\<close>, the frames of the timeline phase at time 0, each a shared
  pointer that may be null. Bodies live in a catalogue, a function from their numbers.
\<close>

datatype Body = Body (getOrbitFrame0: "Frame option") (getBodyFrame0: "Frame option")

type_synonym Bodies = "nat \<Rightarrow> Body"

subsection \<open>Nesting depth\<close>

text \<open>
  \<open>getFrameDepth\<close>, the \<open>nestingDepth\<close> overrides of the frame classes and
  \<open>FrameVector::nestingDepth\<close> call each other, and on a cyclic frame graph nothing but
  the depth counter stops them. The first argument is fuel: every call uses one unit,
  and \<open>None\<close> says the fuel ran out before the call returned. A call that returns
  gives the depth, an \<open>unsigned int\<close>; \<open>NullFrame\<close> is the call through the null
  frame pointer of a constant vector, which \<open>FrameVector::nestingDepth\<close> does not
  check.
\<close>

datatype Outcome = Depth "32 word" | NullFrame

fun andThen :: "Outcome option \<Rightarrow> (32 word \<Rightarrow> Outcome option) \<Rightarrow> Outcome option" where
  "andThen None f = None"
| "andThen (Some NullFrame) f = Some NullFrame"
| "andThen (Some (Depth d)) f = f d"

fun getFrameDepth ::
    "nat \<Rightarrow> Bodies \<Rightarrow> Selection \<Rightarrow> 32 word \<Rightarrow> 32 word \<Rightarrow> FrameType \<Rightarrow> Outcome option"
  and Frame_nestingDepth ::
    "nat \<Rightarrow> Bodies \<Rightarrow> Frame \<Rightarrow> 32 word \<Rightarrow> 32 word \<Rightarrow> FrameType \<Rightarrow> Outcome option"
  and FrameVector_nestingDepth ::
    "nat \<Rightarrow> Bodies \<Rightarrow> FrameVector \<Rightarrow> 32 word \<Rightarrow> 32 word \<Rightarrow> Outcome option"
where
  "getFrameDepth 0 bodies sel depth maxDepth frameType = None"
| "getFrameDepth (Suc fuel) bodies sel depth maxDepth frameType =
     (if depth > maxDepth then Some (Depth depth)
      else
        (case (case Selection_location sel of
                 Some l \<Rightarrow> getParentBody l
               | None \<Rightarrow> Selection_body sel) of
           None \<Rightarrow> Some (Depth depth)
         | Some b \<Rightarrow>
             andThen
               (case getOrbitFrame0 (bodies b) of
                  Some orbitFrame \<Rightarrow>
                    if frameType = PositionFrame
                    then Frame_nestingDepth fuel bodies orbitFrame (depth + 1) maxDepth frameType
                    else Some (Depth depth)
                | None \<Rightarrow> Some (Depth depth))
               (\<lambda>orbitFrameDepth.
                  if getOrbitFrame0 (bodies b) \<noteq> None \<and> frameType = PositionFrame
                     \<and> orbitFrameDepth > maxDepth
                  then Some (Depth orbitFrameDepth)
                  else
                    andThen
                      (case getBodyFrame0 (bodies b) of
                         Some bodyFrame \<Rightarrow>
                           if frameType = OrientationFrame
                           then Frame_nestingDepth fuel bodies bodyFrame (depth + 1) maxDepth
                                  frameType
                           else Some (Depth depth)
                       | None \<Rightarrow> Some (Depth depth))
                      (\<lambda>bodyFrameDepth. Some (Depth (max orbitFrameDepth bodyFrameDepth))))))"
| "Frame_nestingDepth 0 bodies frame depth maxDepth frameType = None"
| "Frame_nestingDepth (Suc fuel) bodies (J2000EclipticFrame center) depth maxDepth frameType =
     getFrameDepth fuel bodies center depth maxDepth PositionFrame"
| "Frame_nestingDepth (Suc fuel) bodies (J2000EquatorFrame center) depth maxDepth frameType =
     getFrameDepth fuel bodies center depth maxDepth PositionFrame"
| "Frame_nestingDepth (Suc fuel) bodies (BodyFixedFrame center fixObject) depth maxDepth
       frameType =
     andThen (getFrameDepth fuel bodies center depth maxDepth PositionFrame)
       (\<lambda>n. if n > maxDepth then Some (Depth n)
            else andThen (getFrameDepth fuel bodies fixObject depth maxDepth OrientationFrame)
                   (\<lambda>m. Some (Depth (max m n))))"
| "Frame_nestingDepth (Suc fuel) bodies
       (BodyMeanEquatorFrame center equatorObject freezeEpoch isFrozen) depth maxDepth
       frameType =
     andThen (getFrameDepth fuel bodies center depth maxDepth PositionFrame)
       (\<lambda>n. if n > maxDepth then Some (Depth n)
            else andThen (getFrameDepth fuel bodies equatorObject depth maxDepth
                            OrientationFrame)
                   (\<lambda>m. Some (Depth (max m n))))"
| "Frame_nestingDepth (Suc fuel) bodies
       (TwoVectorFrame center primaryVector primaryAxis secondaryVector secondaryAxis)
       depth maxDepth frameType =
     andThen (getFrameDepth fuel bodies center depth maxDepth PositionFrame)
       (\<lambda>n. if n > maxDepth then Some (Depth n)
            else andThen (FrameVector_nestingDepth fuel bodies primaryVector depth maxDepth)
                   (\<lambda>m. let n' = max m n
                        in if n' > maxDepth then Some (Depth n')
                           else andThen
                                  (FrameVector_nestingDepth fuel bodies secondaryVector depth
                                     maxDepth)
                                  (\<lambda>m'. Some (Depth (max m' n')))))"
| "FrameVector_nestingDepth 0 bodies fv depth maxDepth = None"
| "FrameVector_nestingDepth (Suc fuel) bodies (RelativePosition observer target) depth
       maxDepth =
     andThen (getFrameDepth fuel bodies observer depth maxDepth PositionFrame)
       (\<lambda>n. if n > maxDepth then Some (Depth n)
            else andThen (getFrameDepth fuel bodies target depth maxDepth PositionFrame)
                   (\<lambda>m. Some (Depth (max m n))))"
| "FrameVector_nestingDepth (Suc fuel) bodies (RelativeVelocity observer target) depth
       maxDepth =
     andThen (getFrameDepth fuel bodies observer depth maxDepth PositionFrame)
       (\<lambda>n. if n > maxDepth then Some (Depth n)
            else andThen (getFrameDepth fuel bodies target depth maxDepth PositionFrame)
                   (\<lambda>m. Some (Depth (max m n))))"
| "FrameVector_nestingDepth (Suc fuel) bodies (ConstantVector vec frame) depth maxDepth =
     (if depth > maxDepth then Some (Depth depth)
      else (case frame of
              None \<Rightarrow> Some NullFrame
            | Some f \<Rightarrow> Frame_nestingDepth fuel bodies f (depth + 1) maxDepth OrientationFrame))"

text \<open>\<open>ReferenceFrame::nestingDepth(maxDepth, frameType)\<close>: the walk starts at depth 0.\<close>

definition nestingDepth ::
    "nat \<Rightarrow> Bodies \<Rightarrow> Frame \<Rightarrow> 32 word \<Rightarrow> FrameType \<Rightarrow> Outcome option" where
  "nestingDepth fuel bodies this maxDepth frameType =
     Frame_nestingDepth fuel bodies this 0 maxDepth frameType"

subsection \<open>Astrocentric conversions\<close>

text \<open>
  \<open>ReferenceFrame::convertFromAstrocentric\<close> and \<open>convertToAstrocentric\<close>. The
  virtual \<open>getOrientation\<close> of the frame and \<open>Body::getAstrocentricPosition\<close> (not
  among the sources) are parameters.
\<close>

definition convertFromAstrocentric ::
    "(nat \<Rightarrow> double \<Rightarrow> Vector3d) \<Rightarrow> (double \<Rightarrow> Quaterniond) \<Rightarrow> Frame \<Rightarrow> Vector3d \<Rightarrow> double
       \<Rightarrow> Vector3d" where
  "convertFromAstrocentric getAstrocentricPosition getOrientation this p tjd =
     (case getCenter this of
        Selection_Body b \<Rightarrow>
          (let center = getAstrocentricPosition b tjd
           in qrotate (getOrientation tjd) (vsub p center))
      | Selection_Star s \<Rightarrow> qrotate (getOrientation tjd) p
      | _ \<Rightarrow> Vector3d_Zero)"

definition convertToAstrocentric ::
    "(nat \<Rightarrow> double \<Rightarrow> Vector3d) \<Rightarrow> (double \<Rightarrow> Quaterniond) \<Rightarrow> Frame \<Rightarrow> Vector3d \<Rightarrow> double
       \<Rightarrow> Vector3d" where
  "convertToAstrocentric getAstrocentricPosition getOrientation this p tjd =
     (case getCenter this of
        Selection_Body b \<Rightarrow>
          (let center = getAstrocentricPosition b tjd
           in vadd center (qrotate (conjugate (getOrientation tjd)) p))
      | Selection_Star s \<Rightarrow> qrotate (conjugate (getOrientation tjd)) p
      | _ \<Rightarrow> Vector3d_Zero)"

subsection \<open>Inertial frames\<close>

text \<open>The \<open>isInertial\<close> overrides that return a constant.\<close>

definition J2000EclipticFrame_isInertial :: "Frame \<Rightarrow> bool" where
  "J2000EclipticFrame_isInertial this = True"

definition J2000EquatorFrame_isInertial :: "Frame \<Rightarrow> bool" where
  "J2000EquatorFrame_isInertial this = True"

definition BodyFixedFrame_isInertial :: "Frame \<Rightarrow> bool" where
  "BodyFixedFrame_isInertial this = False"

definition TwoVectorFrame_isInertial :: "Frame \<Rightarrow> bool" where
  "TwoVectorFrame_isInertial this = True"

subsection \<open>The caching frame\<close>

text \<open>
  The mutable members of a \<open>CachingFrame\<close>. The field \<open>computed\<close> is not a member:
  it records the argument of every call of \<open>computeOrientation\<close>, the latest first,
  so that the calls can be counted.
\<close>

record CachingFrame =
  lastTime :: double
  lastOrientation :: Quaterniond
  lastAngularVelocity :: Vector3d
  orientationCacheValid :: bool
  angularVelocityCacheValid :: bool
  computed :: "double list"

text \<open>The constructor \<open>CachingFrame::CachingFrame\<close>.\<close>

definition CachingFrame_new :: CachingFrame where
  "CachingFrame_new =
     \<lparr>lastTime = - (10 ^ 50),
      lastOrientation = Quaterniond_Identity,
      lastAngularVelocity = \<lparr>vx = 0, vy = 0, vz = 0\<rparr>,
      orientationCacheValid = False,
      angularVelocityCacheValid = False,
      computed = []\<rparr>"

text \<open>
  The pure virtual \<open>computeOrientation\<close> is the parameter \<open>co\<close>; a call of it is
  \<open>callComputeOrientation\<close>, which also records the call.
\<close>

definition callComputeOrientation ::
    "(double \<Rightarrow> Quaterniond) \<Rightarrow> double \<Rightarrow> CachingFrame \<Rightarrow> Quaterniond \<times> CachingFrame" where
  "callComputeOrientation co tjd s = (co tjd, s\<lparr>computed := tjd # computed s\<rparr>)"

definition CachingFrame_getOrientation ::
    "(double \<Rightarrow> Quaterniond) \<Rightarrow> double \<Rightarrow> CachingFrame \<Rightarrow> Quaterniond \<times> CachingFrame" where
  "CachingFrame_getOrientation co tjd s =
     (if tjd \<noteq> lastTime s then
        (let s1 = s\<lparr>lastTime := tjd\<rparr>;
             (q, s2) = callComputeOrientation co tjd s1;
             s3 = s2\<lparr>lastOrientation := q\<rparr>;
             s4 = s3\<lparr>orientationCacheValid := True\<rparr>;
             s5 = s4\<lparr>angularVelocityCacheValid := False\<rparr>
         in (lastOrientation s5, s5))
      else if \<not> orientationCacheValid s then
        (let (q, s1) = callComputeOrientation co tjd s;
             s2 = s1\<lparr>lastOrientation := q\<rparr>;
             s3 = s2\<lparr>orientationCacheValid := True\<rparr>
         in (lastOrientation s3, s3))
      else (lastOrientation s, s))"

definition CachingFrame_computeAngularVelocity ::
    "(double \<Rightarrow> Quaterniond) \<Rightarrow> double \<Rightarrow> CachingFrame \<Rightarrow> Vector3d \<times> CachingFrame" where
  "CachingFrame_computeAngularVelocity co tjd s =
     (let (q0, s1) = CachingFrame_getOrientation co tjd s;
          (q1, s2) = callComputeOrientation co (tjd + ANGULAR_VELOCITY_DIFF_DELTA) s1;
          dq = qmul (conjugate q0) q1
      in if \<bar>qw dq\<bar> > 99999999 / 100000000 then (Vector3d_Zero, s2)
         else (vscale (normalized (qvec dq))
                 (2 * arccos (qw dq) / ANGULAR_VELOCITY_DIFF_DELTA), s2))"

definition CachingFrame_getAngularVelocity ::
    "(double \<Rightarrow> Quaterniond) \<Rightarrow> double \<Rightarrow> CachingFrame \<Rightarrow> Vector3d \<times> CachingFrame" where
  "CachingFrame_getAngularVelocity co tjd s =
     (if tjd \<noteq> lastTime s then
        (let s1 = s\<lparr>lastTime := tjd\<rparr>;
             (w, s2) = CachingFrame_computeAngularVelocity co tjd s1;
             s3 = s2\<lparr>lastAngularVelocity := w\<rparr>;
             s4 = s3\<lparr>orientationCacheValid := False\<rparr>;
             s5 = s4\<lparr>angularVelocityCacheValid := True\<rparr>
         in (lastAngularVelocity s5, s5))
      else if \<not> angularVelocityCacheValid s then
        (let (w, s1) = CachingFrame_computeAngularVelocity co tjd s;
             s2 = s1\<lparr>lastAngularVelocity := w\<rparr>;
             s3 = s2\<lparr>angularVelocityCacheValid := True\<rparr>
         in (lastAngularVelocity s3, s3))
      else (lastAngularVelocity s, s))"

subsection \<open>The two-vector frame\<close>

definition Tolerance :: double where
  "Tolerance = 1 / 1000000"

text \<open>The third axis, as the constructor \<open>TwoVectorFrame::TwoVectorFrame\<close> chooses it.\<close>

definition tertiaryAxis :: "int \<Rightarrow> int \<Rightarrow> int" where
  "tertiaryAxis primaryAxis secondaryAxis =
     (if \<bar>primaryAxis\<bar> \<noteq> 1 \<and> \<bar>secondaryAxis\<bar> \<noteq> 1 then 1
      else if \<bar>primaryAxis\<bar> \<noteq> 2 \<and> \<bar>secondaryAxis\<bar> \<noteq> 2 then 2
      else 3)"

text \<open>
  A \<open>Matrix3d\<close> by its rows; \<open>setRow m i v\<close> is \<open>m.row(i) = v\<close> for a row index
  0, 1 or 2. The constructor's assertions keep every index the method uses in range and
  the three indices distinct, so every row of the local matrix is written before it is
  read; the matrix starts as \<open>Matrix3d_start\<close>.
\<close>

record Matrix3d =
  row0 :: Vector3d
  row1 :: Vector3d
  row2 :: Vector3d

definition Matrix3d_start :: Matrix3d where
  "Matrix3d_start = \<lparr>row0 = Vector3d_Zero, row1 = Vector3d_Zero, row2 = Vector3d_Zero\<rparr>"

definition setRow :: "Matrix3d \<Rightarrow> int \<Rightarrow> Vector3d \<Rightarrow> Matrix3d" where
  "setRow m i v =
     (if i = 0 then m\<lparr>row0 := v\<rparr>
      else if i = 1 then m\<lparr>row1 := v\<rparr>
      else if i = 2 then m\<lparr>row2 := v\<rparr>
      else m)"

text \<open>
  \<open>TwoVectorFrame::computeOrientation\<close>. \<open>FrameVector::direction\<close> reads the
  positions and velocities of the selected objects, which the sources do not hold, and
  the conversion of a rotation matrix to a quaternion is Eigen's; both are parameters.
\<close>

fun TwoVectorFrame_computeOrientation ::
    "(Matrix3d \<Rightarrow> Quaterniond) \<Rightarrow> (FrameVector \<Rightarrow> double \<Rightarrow> Vector3d) \<Rightarrow> Frame \<Rightarrow> double
       \<Rightarrow> Quaterniond" where
  "TwoVectorFrame_computeOrientation quaternionOfMatrix direction
       (TwoVectorFrame center primaryVector primaryAxis secondaryVector secondaryAxis) tjd =
     (let v0 = normalized (direction primaryVector tjd);
          v1 = normalized (direction secondaryVector tjd);
          v0 = (if primaryAxis < 0 then vneg v0 else v0);
          v1 = (if secondaryAxis < 0 then vneg v1 else v1);
          v2 = cross v0 v1;
          len = norm3 v2
      in if len < Tolerance then Quaterniond_Identity
         else
           (let v2 = vdiv v2 len;
                rhAxis = \<bar>primaryAxis\<bar> + 1;
                rhAxis = (if rhAxis > 3 then 1 else rhAxis);
                rhOrder = (rhAxis = \<bar>secondaryAxis\<bar>);
                m = setRow Matrix3d_start (\<bar>primaryAxis\<bar> - 1) v0;
                m = (if rhOrder
                     then setRow (setRow m (\<bar>secondaryAxis\<bar> - 1) (cross v2 v0))
                            (\<bar>tertiaryAxis primaryAxis secondaryAxis\<bar> - 1) v2
                     else setRow (setRow m (\<bar>secondaryAxis\<bar> - 1) (cross v0 (vneg v2)))
                            (\<bar>tertiaryAxis primaryAxis secondaryAxis\<bar> - 1) (vneg v2))
            in quaternionOfMatrix m))"

section \<open>Timeline phases (timelinephase.cpp)\<close>

text \<open>
  A \<open>FrameTree*\<close> points at the frame tree of a body or at the frame tree of the solar
  system of a star. The orbit and the rotation model of a phase are opaque here and
  are known by a number.
\<close>

datatype FrameTreeRef = BodyFrameTree nat | SolarSystemFrameTree nat

record TimelinePhase =
  m_body :: nat
  m_startTime :: double
  m_endTime :: double
  m_orbitFrame :: Frame
  m_orbit :: nat
  m_bodyFrame :: Frame
  m_rotationModel :: nat
  m_owner :: FrameTreeRef

text \<open>
  Modelled from the spec: \<open>Body::getOrCreateFrameTree\<close>,
  \<open>Universe::getOrCreateSolarSystem\<close>, \<open>SolarSystem::getFrameTree\<close> and
  \<open>FrameTree::addChild\<close> are not among the sources. The spec says that the frame tree
  of a body and the solar system of a star are created lazily, and that a new phase is
  registered as a child of its frame tree. The state holds, for every body and for
  every star, the children of its frame tree once the tree exists.
\<close>

record Universe =
  bodyFrameTree :: "nat \<Rightarrow> TimelinePhase list option"
  solarSystemFrameTree :: "nat \<Rightarrow> TimelinePhase list option"

text \<open>
  Modelled from the spec: \<open>Body::getOrCreateFrameTree\<close>; the frame tree of a body is
  created lazily.
\<close>

definition getOrCreateFrameTree :: "Universe \<Rightarrow> nat \<Rightarrow> FrameTreeRef \<times> Universe" where
  "getOrCreateFrameTree u b =
     (case bodyFrameTree u b of
        Some children \<Rightarrow> (BodyFrameTree b, u)
      | None \<Rightarrow> (BodyFrameTree b, u\<lparr>bodyFrameTree := (bodyFrameTree u)(b \<mapsto> [])\<rparr>))"

text \<open>
  Modelled from the spec: \<open>Universe::getOrCreateSolarSystem\<close> followed by
  \<open>SolarSystem::getFrameTree\<close>; the solar system of a star is created lazily.
\<close>

definition getOrCreateSolarSystem :: "Universe \<Rightarrow> nat \<Rightarrow> FrameTreeRef \<times> Universe" where
  "getOrCreateSolarSystem u s =
     (case solarSystemFrameTree u s of
        Some children \<Rightarrow> (SolarSystemFrameTree s, u)
      | None \<Rightarrow>
          (SolarSystemFrameTree s, u\<lparr>solarSystemFrameTree := (solarSystemFrameTree u)(s \<mapsto> [])\<rparr>))"

text \<open>
  Modelled from the spec: the children of a frame tree, none while the tree does not
  exist.
\<close>

definition children :: "Universe \<Rightarrow> FrameTreeRef \<Rightarrow> TimelinePhase list" where
  "children u t =
     (case t of
        BodyFrameTree b \<Rightarrow> (case bodyFrameTree u b of Some c \<Rightarrow> c | None \<Rightarrow> [])
      | SolarSystemFrameTree s \<Rightarrow> (case solarSystemFrameTree u s of Some c \<Rightarrow> c | None \<Rightarrow> []))"

text \<open>
  Modelled from the spec: \<open>FrameTree::addChild\<close>, which registers a phase as a child of
  the frame tree.
\<close>

definition addChild :: "Universe \<Rightarrow> FrameTreeRef \<Rightarrow> TimelinePhase \<Rightarrow> Universe" where
  "addChild u t phase =
     (case t of
        BodyFrameTree b \<Rightarrow> u\<lparr>bodyFrameTree := (bodyFrameTree u)(b \<mapsto> children u t @ [phase])\<rparr>
      | SolarSystemFrameTree s \<Rightarrow>
          u\<lparr>solarSystemFrameTree := (solarSystemFrameTree u)(s \<mapsto> children u t @ [phase])\<rparr>)"

text \<open>
  \<open>TimelinePhase::CreateTimelinePhase\<close>. The universe is passed by reference and
  comes back changed; \<open>None\<close> is the null pointer.
\<close>

definition CreateTimelinePhase ::
    "Universe \<Rightarrow> nat \<Rightarrow> double \<Rightarrow> double \<Rightarrow> Frame \<Rightarrow> nat \<Rightarrow> Frame \<Rightarrow> nat
       \<Rightarrow> TimelinePhase option \<times> Universe" where
  "CreateTimelinePhase universe body startTime endTime orbitFrame orbit bodyFrame rotationModel =
     (if endTime \<le> startTime then (None, universe)
      else
        (let center = getCenter orbitFrame
         in case (case Selection_body center of
                    Some b \<Rightarrow> Some (getOrCreateFrameTree universe b)
                  | None \<Rightarrow>
                      (case Selection_star center of
                         Some s \<Rightarrow> Some (getOrCreateSolarSystem universe s)
                       | None \<Rightarrow> None)) of
              None \<Rightarrow> (None, universe)
            | Some (frameTree, universe') \<Rightarrow>
                (let phase = \<lparr>m_body = body, m_startTime = startTime, m_endTime = endTime,
                              m_orbitFrame = orbitFrame, m_orbit = orbit,
                              m_bodyFrame = bodyFrame, m_rotationModel = rotationModel,
                              m_owner = frameTree\<rparr>
                 in (Some phase, addChild universe' frameTree phase))))"

section \<open>The spec's formulas and example data\<close>

text \<open>
  The spec on the default angular velocity: \<open>axis * angle/\<delta>\<close> recovered from the
  relative quaternion, the zero vector when the magnitude of its scalar part is above
  the tolerance; \<open>\<delta>\<close> is the period divided by 10000 for a periodic model and a
  fixed small constant otherwise; the relative quaternion is
  \<open>q(t)\<^sup>-\<^sup>1 \<cdot> q(t + \<delta>)\<close>. Orientations are unit quaternions, whose inverse is the
  conjugate.
\<close>

definition spec_axis_angle_rate :: "Quaterniond \<Rightarrow> double \<Rightarrow> Vector3d" where
  "spec_axis_angle_rate dq \<delta> =
     (if \<bar>qw dq\<bar> > 99999999 / 100000000 then Vector3d_Zero
      else vscale (normalized (qvec dq)) (2 * arccos (qw dq) / \<delta>))"

definition spec_delta :: "'a RotationModel_scheme \<Rightarrow> double" where
  "spec_delta rm = (if isPeriodic rm then getPeriod rm / 10000 else 1 / 1440)"

definition spec_angularVelocity :: "'a RotationModel_scheme \<Rightarrow> double \<Rightarrow> Vector3d" where
  "spec_angularVelocity rm t =
     spec_axis_angle_rate
       (qmul (conjugate (orientationAtTime rm t)) (orientationAtTime rm (t + spec_delta rm)))
       (spec_delta rm)"

text \<open>A model that is not periodic and turns about the x axis, half a turn a minute.\<close>

definition halfTurnPerMinute :: RotationModel where
  "halfTurnPerMinute =
     \<lparr>isPeriodic = False, getPeriod = 0,
      orientationAtTime = (\<lambda>t. XRotation (1440 * pi * t))\<rparr>"

text \<open>\<open>UniformRotationModel(P, 0, E, 0, 0)\<close>.\<close>

definition uniformModel :: "double \<Rightarrow> double \<Rightarrow> UniformRotationModel" where
  "uniformModel P E =
     \<lparr>period = P, offset = 0, epoch = E, inclination = 0, ascendingNode = 0\<rparr>"

text \<open>
  Frame graphs. In \<open>chainBodies\<close> the orbit frame of body \<open>i + 1\<close> is centred on body
  \<open>i\<close> and the orbit frame of body 0 on a star, so a frame centred on body \<open>i\<close> has
  \<open>i + 1\<close> frames below it. In \<open>cycleBodies\<close> the orbit frame of every body is
  centred on the body itself.
\<close>

definition chainBodies :: Bodies where
  "chainBodies =
     (\<lambda>i. Body (Some (J2000EclipticFrame
                        (if i = 0 then Selection_Star 0 else Selection_Body (i - 1))))
                None)"

definition cycleBodies :: Bodies where
  "cycleBodies = (\<lambda>i. Body (Some (J2000EclipticFrame (Selection_Body i))) None)"

text \<open>
  In \<open>vectorCycleBodies\<close> the body frame of every body is a two-vector frame whose
  primary vector is a constant vector in the body-fixed frame of the same body.
\<close>

definition vectorCycleBodies :: Bodies where
  "vectorCycleBodies =
     (\<lambda>i. Body None
            (Some (TwoVectorFrame (Selection_Star 0)
                     (ConstantVector \<lparr>vx = 1, vy = 0, vz = 0\<rparr>
                        (Some (BodyFixedFrame (Selection_Star 0) (Selection_Body i))))
                     1
                     (RelativePosition (Selection_Star 0) (Selection_Body i))
                     2)))"

text \<open>
  The body a selection stands for in the walk, as \<open>getFrameDepth\<close> finds it: the parent
  body of a location, the body of a body selection, none otherwise. \<open>frameOf\<close> is the
  frame \<open>getFrameDepth\<close> goes on to from a selection: the orbit frame of that body when
  position frames are asked for, its body frame when orientation frames are.
\<close>

definition selectionBody :: "Selection \<Rightarrow> nat option" where
  "selectionBody sel =
     (case Selection_location sel of Some l \<Rightarrow> getParentBody l | None \<Rightarrow> Selection_body sel)"

definition frameOf :: "Bodies \<Rightarrow> Selection \<Rightarrow> FrameType \<Rightarrow> Frame option" where
  "frameOf bodies sel frameType =
     (case selectionBody sel of
        None \<Rightarrow> None
      | Some b \<Rightarrow>
          (case frameType of
             PositionFrame \<Rightarrow> getOrbitFrame0 (bodies b)
           | OrientationFrame \<Rightarrow> getBodyFrame0 (bodies b)))"


text \<open>
  Every constant vector of a frame has a frame, and so has every constant vector in the
  frames of the bodies of a catalogue.
\<close>

fun framedFrame :: "Frame \<Rightarrow> bool"
  and framedVector :: "FrameVector \<Rightarrow> bool"
where
  "framedFrame (TwoVectorFrame center primaryVector primaryAxis secondaryVector secondaryAxis) =
     (framedVector primaryVector \<and> framedVector secondaryVector)"
| "framedFrame _ = True"
| "framedVector (ConstantVector vec None) = False"
| "framedVector (ConstantVector vec (Some f)) = framedFrame f"
| "framedVector _ = True"

definition framedBodies :: "Bodies \<Rightarrow> bool" where
  "framedBodies bodies =
     (\<forall>b. (case getOrbitFrame0 (bodies b) of None \<Rightarrow> True | Some f \<Rightarrow> framedFrame f)
        \<and> (case getBodyFrame0 (bodies b) of None \<Rightarrow> True | Some f \<Rightarrow> framedFrame f))"


text \<open>
  The cache of a caching frame is consistent when the orientation it holds as valid is
  the one \<open>computeOrientation\<close> gives for the time it holds.
\<close>

definition cacheConsistent :: "(double \<Rightarrow> Quaterniond) \<Rightarrow> CachingFrame \<Rightarrow> bool" where
  "cacheConsistent co s = (\<not> orientationCacheValid s \<or> lastOrientation s = co (lastTime s))"

text \<open>Example data: directions that all point along x, and a universe without frame trees.\<close>

definition alongX :: "FrameVector \<Rightarrow> double \<Rightarrow> Vector3d" where
  "alongX fv t = \<lparr>vx = 2, vy = 0, vz = 0\<rparr>"

definition emptyUniverse :: Universe where
  "emptyUniverse = \<lparr>bodyFrameTree = (\<lambda>b. None), solarSystemFrameTree = (\<lambda>s. None)\<rparr>"

section \<open>Results: universal coordinates\<close>

lemma sint_R128_of_int:
  fixes n :: int
  assumes "- (2 ^ 127) \<le> n" and "n < 2 ^ 127"
  shows "sint (word_of_int n :: R128) = n"
  using assms by (simp add: signed_take_bit_int_eq_self_iff sint_sbintrunc')

text \<open>
  A double of magnitude below \<open>2^63\<close> comes back from the fixed-point type within the
  resolution \<open>2^-64\<close>.
\<close>

lemma R128_round_trip:
  assumes "0 \<le> v" and "v < 2 ^ 63"
  shows "v - 1 / 2 ^ 64 < double_of_R128 (R128_of_double v)
       \<and> double_of_R128 (R128_of_double v) \<le> v"
proof -
  let ?n = "\<lfloor>v * 2 ^ 64\<rfloor>"
  have n0: "0 \<le> ?n" using assms(1) by simp
  have "v * 2 ^ 64 < 2 ^ 63 * 2 ^ 64" using assms(2) by simp
  then have "v * 2 ^ 64 < 2 ^ 127" by simp
  then have "?n < 2 ^ 127" by (simp add: floor_less_iff)
  with n0 have s: "sint (word_of_int ?n :: R128) = ?n"
    by (intro sint_R128_of_int) simp_all
  have nv: "\<not> v < 0" using assms(1) by simp
  have r: "R128_of_double v = word_of_int ?n"
    unfolding R128_of_double_def by (rule if_not_P [OF nv])
  have d: "double_of_R128 (R128_of_double v) = real_of_int ?n / 2 ^ 64"
    unfolding double_of_R128_def r s ..
  have up: "real_of_int ?n \<le> v * 2 ^ 64" by (rule of_int_floor_le)
  have lo: "v * 2 ^ 64 - 1 < real_of_int ?n" by linarith
  from up have "real_of_int ?n / 2 ^ 64 \<le> v" by (simp add: divide_le_eq)
  moreover from lo have "v - 1 / 2 ^ 64 < real_of_int ?n / 2 ^ 64"
    by (simp add: less_divide_eq field_simps)
  ultimately show ?thesis by (simp add: d)
qed

lemma microLightYearsToKilometers_pos: "0 < microLightYearsToKilometers 1"
  by (simp add: microLightYearsToKilometers_def KM_PER_LY_def)

lemma CreateKm_offsetFromKm_x:
  "vx (offsetFromKm (CreateKm v) UniversalCoord_Zero)
     = double_of_R128 (R128_of_double (vx v * microLightYearsToKilometers 1))
         * microLightYearsToKilometers 1"
  by (simp add: offsetFromKm_def CreateKm_def UniversalCoord_Zero_def vscale_def Let_def
      UniversalCoord_of_doubles_def)

text \<open>
  In general the x component that comes back is the x component that went in times the
  square of the number of kilometres in a micro light year, up to the resolution.
\<close>

lemma CreateKm_offsetFromKm_scaled:
  assumes "0 \<le> vx v" and "vx v * microLightYearsToKilometers 1 < 2 ^ 63"
  shows "vx v * (microLightYearsToKilometers 1)\<^sup>2 - microLightYearsToKilometers 1 / 2 ^ 64
           < vx (offsetFromKm (CreateKm v) UniversalCoord_Zero)
       \<and> vx (offsetFromKm (CreateKm v) UniversalCoord_Zero)
           \<le> vx v * (microLightYearsToKilometers 1)\<^sup>2"
proof -
  let ?k = "microLightYearsToKilometers 1"
  let ?d = "double_of_R128 (R128_of_double (vx v * ?k))"
  have k: "0 < ?k" by (rule microLightYearsToKilometers_pos)
  with assms(1) have "0 \<le> vx v * ?k" by simp
  from R128_round_trip [OF this assms(2)]
  have lo: "vx v * ?k - 1 / 2 ^ 64 < ?d" and up: "?d \<le> vx v * ?k" by simp_all
  from lo k have "(vx v * ?k - 1 / 2 ^ 64) * ?k < ?d * ?k" by (rule mult_strict_right_mono)
  moreover from up k have "?d * ?k \<le> vx v * ?k * ?k" by (intro mult_right_mono) simp_all
  ultimately show ?thesis
    unfolding CreateKm_offsetFromKm_x by (simp add: power2_eq_square algebra_simps)
qed

lemma CreateKm_ten_million:
  "CreateKm \<lparr>vx = 10000000, vy = 0, vz = 0\<rparr>
     = \<lparr>uc_x = word_of_int (94607304725808 * 2 ^ 64), uc_y = 0, uc_z = 0\<rparr>"
  by (simp add: CreateKm_def vscale_def microLightYearsToKilometers_def KM_PER_LY_def
      UniversalCoord_of_doubles_def R128_of_double_def)

lemma double_of_R128_example:
  "double_of_R128 (word_of_int (94607304725808 * 2 ^ 64)) = 94607304725808"
  unfolding double_of_R128_def
  by (subst sint_R128_of_int) simp_all

text \<open>
  C1: the claim is that \<open>CreateKm(v).offsetFromKm(Zero())\<close> gives \<open>v\<close> back up to
  the fixed-point resolution. \<open>CreateKm\<close> multiplies the kilometres by
  \<open>microLightYearsToKilometers(1.0)\<close>, the factor that \<open>offsetFromKm\<close> multiplies by
  again, so the vector that comes back is \<open>v\<close> times the square of the number of
  kilometres in a micro light year: ten million kilometres along x come back as about
  \<open>8.95e20\<close> kilometres.
\<close>

theorem CreateKm_offsetFromKm_ten_million:
  "offsetFromKm (CreateKm \<lparr>vx = 10000000, vy = 0, vz = 0\<rparr>) UniversalCoord_Zero
     = \<lparr>vx = 94607304725808 * 94607304725808 / 10000000, vy = 0, vz = 0\<rparr>"
  unfolding CreateKm_ten_million
  by (simp add: offsetFromKm_def UniversalCoord_Zero_def double_of_R128_example vscale_def
      microLightYearsToKilometers_def KM_PER_LY_def double_of_R128_def)

text \<open>
  The sibling \<open>offsetKm\<close> divides by that factor, as the documentation of
  \<open>CreateKm\<close> asks, and its round trip is the identity on the length of one micro
  light year.
\<close>

lemma offsetKm_offsetFromKm_example:
  "offsetFromKm (offsetKm UniversalCoord_Zero \<lparr>vx = 94607304725808 / 10000000, vy = 0, vz = 0\<rparr>)
       UniversalCoord_Zero
     = \<lparr>vx = 94607304725808 / 10000000, vy = 0, vz = 0\<rparr>"
  by (simp add: offsetKm_def offsetFromKm_def UniversalCoord_Zero_def vscale_def uc_plus_def
      UniversalCoord_of_vector_def UniversalCoord_of_doubles_def kilometersToMicroLightYears_def
      microLightYearsToKilometers_def KM_PER_LY_def R128_of_double_def double_of_R128_def)

text \<open>
  C10: for every pair of universal coordinates \<open>a\<close> and \<open>b\<close>, \<open>(a + b) - b\<close> is \<open>a\<close>
  and \<open>(a - b) + b\<close> is \<open>a\<close>, exactly and in every component: the components are added
  and subtracted as 128-bit fixed-point numbers, which wrap around and never round.
\<close>

theorem uc_plus_minus_cancel:
  "uc_minus (uc_plus a b) b = a \<and> uc_plus (uc_minus a b) b = a"
  by (simp add: uc_minus_def uc_plus_def)

section \<open>Results: rotation models\<close>

lemma conjugate_qmul: "conjugate (qmul a b) = qmul (conjugate b) (conjugate a)"
  by (simp add: conjugate_def qmul_def)

lemma conjugate_conjugate: "conjugate (conjugate q) = q"
  by (simp add: conjugate_def)

lemma squaredNorm_vneg: "squaredNorm (vneg v) = squaredNorm v"
  by (simp add: squaredNorm_def vneg_def)

lemma normalized_vneg: "normalized (vneg v) = vneg (normalized v)"
  by (simp add: normalized_def Let_def squaredNorm_vneg) (simp add: vneg_def vdiv_def)

lemma vscale_vneg: "vscale (vneg v) s = vneg (vscale v s)"
  by (simp add: vneg_def vscale_def)

lemma qvec_conjugate: "qvec (conjugate q) = vneg (qvec q)"
  by (simp add: qvec_def conjugate_def vneg_def)

lemma spec_axis_angle_rate_conjugate:
  "spec_axis_angle_rate (conjugate dq) d = vneg (spec_axis_angle_rate dq d)"
  unfolding spec_axis_angle_rate_def
  by (simp add: qvec_conjugate normalized_vneg vscale_vneg)
     (simp add: conjugate_def vneg_def Vector3d_Zero_def)

lemma spec_delta_eq: "spec_delta rm = chooseDiffTimeDelta rm"
  by (simp add: spec_delta_def chooseDiffTimeDelta_def ANGULAR_VELOCITY_DIFF_DELTA_def)

lemma angularVelocityAtTime_halfTurn:
  "angularVelocityAtTime halfTurnPerMinute 0 = \<lparr>vx = - (1440 * pi), vy = 0, vz = 0\<rparr>"
  by (simp add: angularVelocityAtTime_def halfTurnPerMinute_def chooseDiffTimeDelta_def
      ANGULAR_VELOCITY_DIFF_DELTA_def XRotation_def qmul_def conjugate_def Let_def
      qvec_def normalized_def squaredNorm_def vdiv_def vscale_def)

lemma spec_angularVelocity_halfTurn:
  "spec_angularVelocity halfTurnPerMinute 0 = \<lparr>vx = 1440 * pi, vy = 0, vz = 0\<rparr>"
  by (simp add: spec_angularVelocity_def spec_axis_angle_rate_def spec_delta_def
      halfTurnPerMinute_def XRotation_def qmul_def conjugate_def Let_def
      qvec_def normalized_def squaredNorm_def vdiv_def vscale_def)

text \<open>
  C2, as the claim states it, fails: for the model that turns half a turn a minute about
  the x axis, the default \<open>angularVelocityAtTime\<close> at time 0 is
  \<open>(-1440 \<pi>, 0, 0)\<close>, and the vector recovered from \<open>q(t)\<^sup>-\<^sup>1 \<cdot> q(t + \<delta>)\<close> is
  \<open>(1440 \<pi>, 0, 0)\<close>.
\<close>

theorem angularVelocityAtTime_order_counterexample:
  "angularVelocityAtTime halfTurnPerMinute 0 \<noteq> spec_angularVelocity halfTurnPerMinute 0"
  by (simp add: angularVelocityAtTime_halfTurn spec_angularVelocity_halfTurn)

lemma sin_small_lower:
  fixes y :: real
  shows "y - \<bar>y\<bar> ^ 3 / 6 \<le> sin y"
proof -
  have "\<bar>sin y - (\<Sum>m<3. sin_coeff m * y ^ m)\<bar> \<le> inverse (fact 3) * \<bar>y\<bar> ^ 3"
    by (rule Maclaurin_sin_bound)
  moreover have "(\<Sum>m<3. sin_coeff m * y ^ m) = y"
    by (simp add: sin_coeff_def numeral_3_eq_3)
  moreover have "inverse (fact 3 :: real) = 1 / 6"
    by (simp add: fact_numeral)
  ultimately have "\<bar>sin y - y\<bar> \<le> \<bar>y\<bar> ^ 3 / 6" by simp
  then show ?thesis by linarith
qed

lemma cos_small_below_tolerance: "cos (pi / 10000) \<le> 99999999 / 100000000"
proof -
  let ?y = "pi / 20000"
  have y1: "2 / 20000 \<le> ?y" using pi_ge_two by simp
  have y2: "?y < 4 / 20000" using pi_less_4 by simp
  have y0: "0 < ?y" by simp
  have "\<bar>?y\<bar> ^ 3 \<le> (4 / 20000) ^ 3"
    using y2 y0 by (intro power_mono) simp_all
  then have "?y - \<bar>?y\<bar> ^ 3 / 6 \<ge> 2 / 20000 - (4 / 20000) ^ 3 / 6"
    using y1 by linarith
  moreover have "(2 / 20000 - (4 / 20000) ^ 3 / 6 :: real) \<ge> 9 / 100000"
    by (simp add: power3_eq_cube)
  ultimately have s: "9 / 100000 \<le> sin ?y" using sin_small_lower [of ?y] by linarith
  have "(9 / 100000 :: real) ^ 2 \<le> (sin ?y) ^ 2"
    using s by (intro power_mono) simp_all
  then have "1 - 2 * (sin ?y) ^ 2 \<le> 1 - 2 * (9 / 100000 :: real) ^ 2" by simp
  moreover have "cos (pi / 10000) = 1 - 2 * (sin ?y) ^ 2"
    using cos_double_sin [of ?y] by simp
  moreover have "1 - 2 * (9 / 100000 :: real) ^ 2 \<le> 99999999 / 100000000"
    by (simp add: power2_eq_square)
  ultimately show ?thesis by linarith
qed

lemma normalized_along_y: "0 < s \<Longrightarrow> normalized \<lparr>vx = 0, vy = s, vz = 0\<rparr> = \<lparr>vx = 0, vy = 1, vz = 0\<rparr>"
  by (simp add: normalized_def squaredNorm_def vdiv_def Let_def)

text \<open>
  The order \<open>q(t + \<delta>)\<^sup>-\<^sup>1 \<cdot> q(t)\<close> is the one that agrees with the closed form of
  \<open>UniformRotationModel::angularVelocityAtTime\<close>: at the epoch of a uniform model with
  a positive period, no offset and no tilt, the default differentiation of its
  orientation gives exactly the vector the override gives.
\<close>

lemma default_agrees_with_uniform:
  assumes "0 < P"
  shows "angularVelocityAtTime
           \<lparr>isPeriodic = True, getPeriod = P,
            orientationAtTime =
              (\<lambda>t. qmul (UniformRotationModel_spin (uniformModel P E) t)
                        (UniformRotationModel_equatorOrientationAtTime (uniformModel P E) t))\<rparr> E
         = UniformRotationModel_angularVelocityAtTime (uniformModel P E) E"
proof -
  let ?e = "pi / 10000"
  have a: "sin (5001 * pi / 10000) = cos ?e"
    using sin_cos_eq [of "5001 * pi / 10000"] cos_minus [of ?e]
    by (simp add: field_simps)
  have b: "cos (5001 * pi / 10000) = - sin ?e"
    using cos_sin_eq [of "5001 * pi / 10000"] sin_minus [of ?e]
    by (simp add: field_simps)
  have e1: "0 < ?e" by simp
  have e2: "?e < pi / 2" by simp
  have c0: "0 < cos ?e" using e1 e2 by (rule cos_gt_zero)
  have s0: "0 < sin ?e" using e1 e2 by (rule sin_gt_zero2)
  have tol: "\<not> 99999999 < \<bar>cos ?e\<bar> * 100000000"
    using cos_small_below_tolerance c0 by simp
  have ac: "arccos (cos ?e) = ?e"
    by (rule arccos_cos) simp_all
  show ?thesis
    using assms tol
    by (simp add: angularVelocityAtTime_def chooseDiffTimeDelta_def Let_def
      UniformRotationModel_spin_def UniformRotationModel_equatorOrientationAtTime_def
      UniformRotationModel_angularVelocityAtTime_def uniformModel_def
      XRotation_def YRotation_def qmul_def conjugate_def a b ac qvec_def
      normalized_along_y [OF s0] qrotate_def cross_def Vector3d_UnitY_def vadd_def vscale_def)
qed

text \<open>
  C2, amended: for every rotation model and every time \<open>t\<close>, the default
  \<open>angularVelocityAtTime(t)\<close> is \<open>axis * angle/\<delta>\<close> recovered from the relative
  quaternion \<open>q(t + \<delta>)\<^sup>-\<^sup>1 \<cdot> q(t)\<close>, in that order, which makes it the negative of
  the vector recovered from \<open>q(t)\<^sup>-\<^sup>1 \<cdot> q(t + \<delta>)\<close>; \<open>\<delta>\<close> is the period divided by
  10000 for a periodic model and 1/1440 otherwise, and the result is the zero vector
  when the magnitude of the scalar part of the relative quaternion is above 0.99999999.
  \<open>CachingRotationModel::computeAngularVelocity\<close> uses the same order, with
  \<open>q(t + \<delta>)\<close> computed by the uncached hooks.
\<close>

theorem angularVelocityAtTime_relative_quaternion:
  "angularVelocityAtTime rm t =
     spec_axis_angle_rate
       (qmul (conjugate (orientationAtTime rm (t + spec_delta rm))) (orientationAtTime rm t))
       (spec_delta rm)
   \<and> angularVelocityAtTime rm t = vneg (spec_angularVelocity rm t)
   \<and> computeAngularVelocity crm t =
     spec_axis_angle_rate
       (qmul (conjugate (qmul (computeSpin crm (t + spec_delta crm))
                              (computeEquatorOrientation crm (t + spec_delta crm))))
             (orientationAtTime crm t))
       (spec_delta crm)"
proof -
  have a: "angularVelocityAtTime rm t =
     spec_axis_angle_rate
       (qmul (conjugate (orientationAtTime rm (t + spec_delta rm))) (orientationAtTime rm t))
       (spec_delta rm)"
    by (simp add: angularVelocityAtTime_def spec_axis_angle_rate_def spec_delta_eq Let_def)
  have "qmul (conjugate (orientationAtTime rm (t + spec_delta rm))) (orientationAtTime rm t)
      = conjugate (qmul (conjugate (orientationAtTime rm t))
                        (orientationAtTime rm (t + spec_delta rm)))"
    by (simp add: conjugate_qmul conjugate_conjugate)
  then have b: "angularVelocityAtTime rm t = vneg (spec_angularVelocity rm t)"
    using a by (simp add: spec_angularVelocity_def spec_axis_angle_rate_conjugate)
  have c: "computeAngularVelocity crm t =
     spec_axis_angle_rate
       (qmul (conjugate (qmul (computeSpin crm (t + spec_delta crm))
                              (computeEquatorOrientation crm (t + spec_delta crm))))
             (orientationAtTime crm t))
       (spec_delta crm)"
    by (simp add: computeAngularVelocity_def spec_axis_angle_rate_def spec_delta_eq Let_def)
  from a b c show ?thesis by blast
qed

lemma UniformRotationModel_spin_periodic:
  "P \<noteq> 0 \<Longrightarrow>
   UniformRotationModel_spin (uniformModel P E) E
     = UniformRotationModel_spin (uniformModel P E) (E + P)"
  by (simp add: UniformRotationModel_spin_def uniformModel_def Let_def)

lemma UniformRotationModel_angularVelocity_value:
  "UniformRotationModel_angularVelocityAtTime (uniformModel P E) t
     = \<lparr>vx = 0, vy = 2 * pi / P, vz = 0\<rparr>"
  by (simp add: UniformRotationModel_angularVelocityAtTime_def
      UniformRotationModel_equatorOrientationAtTime_def uniformModel_def XRotation_def
      YRotation_def qmul_def conjugate_def qrotate_def Let_def cross_def qvec_def
      Vector3d_UnitY_def vadd_def vscale_def)

lemma norm3_along_y: "norm3 \<lparr>vx = 0, vy = a, vz = 0\<rparr> = \<bar>a\<bar>"
  by (simp add: norm3_def squaredNorm_def)

lemma UniformRotationModel_angularVelocity_norm:
  "norm3 (UniformRotationModel_angularVelocityAtTime (uniformModel P E) t) = \<bar>2 * pi / P\<bar>"
  by (simp only: UniformRotationModel_angularVelocity_value norm3_along_y)

text \<open>
  C6, as the claim states it, fails for a negative period: with \<open>P = -1\<close> the magnitude
  of the angular velocity is \<open>2\<pi>\<close>, and \<open>2\<pi>/P\<close> is \<open>-2\<pi>\<close>.
\<close>

theorem UniformRotationModel_negative_period_counterexample:
  "norm3 (UniformRotationModel_angularVelocityAtTime (uniformModel (- 1) 0) 0) \<noteq> 2 * pi / (- 1)"
  by (simp add: UniformRotationModel_angularVelocity_norm)

text \<open>
  C6, amended: for a \<open>UniformRotationModel\<close> with period \<open>P \<noteq> 0\<close>, offset 0, epoch
  \<open>E\<close>, inclination 0 and ascending node 0, \<open>spin(E)\<close> equals \<open>spin(E + P)\<close>, and the
  magnitude of \<open>angularVelocityAtTime(t)\<close> is \<open>|2\<pi>/P|\<close> for every \<open>t\<close>, which is
  \<open>2\<pi>/P\<close> when \<open>P\<close> is positive.
\<close>

theorem UniformRotationModel_periodic_and_rate:
  assumes "P \<noteq> 0"
  shows "UniformRotationModel_spin (uniformModel P E) E
           = UniformRotationModel_spin (uniformModel P E) (E + P)
       \<and> norm3 (UniformRotationModel_angularVelocityAtTime (uniformModel P E) t) = \<bar>2 * pi / P\<bar>
       \<and> (0 < P \<longrightarrow>
            norm3 (UniformRotationModel_angularVelocityAtTime (uniformModel P E) t) = 2 * pi / P)"
  using assms
  by (simp add: UniformRotationModel_spin_periodic UniformRotationModel_angularVelocity_norm)

theorem UniformRotationModel_periodic_and_rate_witness:
  "(2 :: real) \<noteq> 0
   \<and> UniformRotationModel_spin (uniformModel 2 5) 5
       = UniformRotationModel_spin (uniformModel 2 5) (5 + 2)
   \<and> norm3 (UniformRotationModel_angularVelocityAtTime (uniformModel 2 5) 7) = \<bar>2 * pi / 2\<bar>
   \<and> (0 :: real) < 2
   \<and> norm3 (UniformRotationModel_angularVelocityAtTime (uniformModel 2 5) 7) = 2 * pi / 2"
  using UniformRotationModel_periodic_and_rate [of 2 5 7] by simp

section \<open>Results: reference frames\<close>

text \<open>
  C3: the claim is that \<open>isInertial()\<close> of a two-vector frame is false. The method
  returns true for every two-vector frame, against its own comment (all two-vector
  frames will be treated as non-inertial) and unlike \<open>BodyFixedFrame::isInertial\<close>.
\<close>

theorem TwoVectorFrame_isInertial_true:
  "TwoVectorFrame_isInertial
     (TwoVectorFrame center primaryVector primaryAxis secondaryVector secondaryAxis) = True"
  by (simp add: TwoVectorFrame_isInertial_def)

text \<open>
  C8: for every reference frame whose centre is neither a body nor a star,
  \<open>convertFromAstrocentric(p, t)\<close> and \<open>convertToAstrocentric(p, t)\<close> are the zero
  vector, for every vector \<open>p\<close> and every time \<open>t\<close>.
\<close>

theorem convert_astrocentric_unsupported_center:
  assumes "getType (getCenter this) \<noteq> SelectionType_Body"
    and "getType (getCenter this) \<noteq> SelectionType_Star"
  shows "convertFromAstrocentric getAstrocentricPosition getOrientation this p tjd = Vector3d_Zero
       \<and> convertToAstrocentric getAstrocentricPosition getOrientation this p tjd = Vector3d_Zero"
  using assms
  by (cases "getCenter this")
     (simp_all add: convertFromAstrocentric_def convertToAstrocentric_def)

theorem convert_astrocentric_unsupported_center_witness:
  "getType (getCenter (J2000EclipticFrame (Selection_DeepSky 7))) \<noteq> SelectionType_Body
   \<and> getType (getCenter (J2000EclipticFrame (Selection_DeepSky 7))) \<noteq> SelectionType_Star
   \<and> convertFromAstrocentric (\<lambda>b t. \<lparr>vx = 1, vy = 2, vz = 3\<rparr>) (\<lambda>t. Quaterniond_Identity)
        (J2000EclipticFrame (Selection_DeepSky 7)) \<lparr>vx = 4, vy = 5, vz = 6\<rparr> 0 = Vector3d_Zero
   \<and> convertToAstrocentric (\<lambda>b t. \<lparr>vx = 1, vy = 2, vz = 3\<rparr>) (\<lambda>t. Quaterniond_Identity)
        (J2000EclipticFrame (Selection_DeepSky 7)) \<lparr>vx = 4, vy = 5, vz = 6\<rparr> 0 = Vector3d_Zero"
  using convert_astrocentric_unsupported_center
          [of "J2000EclipticFrame (Selection_DeepSky 7)" "\<lambda>b t. \<lparr>vx = 1, vy = 2, vz = 3\<rparr>"
              "\<lambda>t. Quaterniond_Identity" "\<lparr>vx = 4, vy = 5, vz = 6\<rparr>" 0]
  by simp

lemma cross_vneg_left: "cross (vneg a) b = vneg (cross a b)"
  by (simp add: cross_def vneg_def)

lemma cross_vneg_right: "cross a (vneg b) = vneg (cross a b)"
  by (simp add: cross_def vneg_def)

lemma norm3_vneg: "norm3 (vneg a) = norm3 a"
  by (simp add: norm3_def squaredNorm_def vneg_def)

lemma vneg_vneg: "vneg (vneg a) = a"
  by (simp add: vneg_def)

text \<open>
  C7: for every two-vector frame and every time at which the cross product of the
  normalized primary and secondary directions is shorter than \<open>1e-6\<close>,
  \<open>computeOrientation\<close> returns the identity quaternion, whatever the signs of the
  two axes.
\<close>

theorem TwoVectorFrame_computeOrientation_collinear:
  assumes "norm3 (cross (normalized (direction primaryVector tjd))
                        (normalized (direction secondaryVector tjd))) < 1 / 1000000"
  shows "TwoVectorFrame_computeOrientation quaternionOfMatrix direction
           (TwoVectorFrame center primaryVector primaryAxis secondaryVector secondaryAxis) tjd
         = Quaterniond_Identity"
  using assms
  by (simp add: Let_def Tolerance_def cross_vneg_left cross_vneg_right norm3_vneg vneg_vneg)

theorem TwoVectorFrame_computeOrientation_collinear_witness:
  "norm3 (cross (normalized (alongX (RelativePosition Selection_None (Selection_Body 1)) 0))
                (normalized (alongX (RelativeVelocity Selection_None (Selection_Body 1)) 0)))
     < 1 / 1000000
   \<and> TwoVectorFrame_computeOrientation (\<lambda>m. \<lparr>qw = 0, qx = 1, qy = 0, qz = 0\<rparr>) alongX
        (TwoVectorFrame Selection_None (RelativePosition Selection_None (Selection_Body 1)) 1
           (RelativeVelocity Selection_None (Selection_Body 1)) (- 2)) 0
      = Quaterniond_Identity"
  using TwoVectorFrame_computeOrientation_collinear
          [where direction = alongX
             and primaryVector = "RelativePosition Selection_None (Selection_Body 1)"
             and secondaryVector = "RelativeVelocity Selection_None (Selection_Body 1)"
             and tjd = 0 and quaternionOfMatrix = "\<lambda>m. \<lparr>qw = 0, qx = 1, qy = 0, qz = 0\<rparr>"
             and center = Selection_None and primaryAxis = 1 and secondaryAxis = "- 2"]
  by (simp add: alongX_def normalized_def squaredNorm_def vdiv_def cross_def norm3_def Let_def)

subsection \<open>The caching frame\<close>

text \<open>
  What holds of \<open>CachingFrame::getOrientation\<close> between calls of the interface: on a
  new frame two calls with the same time compute once and both give the computed
  orientation; a second call with the same time changes nothing; a call with another
  time computes again; and the cache stays consistent over calls of \<open>getOrientation\<close>
  and \<open>getAngularVelocity\<close>, so that \<open>getOrientation\<close> on a consistent cache gives
  what \<open>computeOrientation\<close> gives.
\<close>

lemma getOrientation_new_twice:
  "fst (CachingFrame_getOrientation co t CachingFrame_new) = co t
   \<and> fst (CachingFrame_getOrientation co t
            (snd (CachingFrame_getOrientation co t CachingFrame_new))) = co t
   \<and> computed (snd (CachingFrame_getOrientation co t
                      (snd (CachingFrame_getOrientation co t CachingFrame_new)))) = [t]"
  by (simp add: CachingFrame_getOrientation_def callComputeOrientation_def
      CachingFrame_new_def Let_def)

lemma getOrientation_again:
  "CachingFrame_getOrientation co t (snd (CachingFrame_getOrientation co t s))
     = (fst (CachingFrame_getOrientation co t s), snd (CachingFrame_getOrientation co t s))"
  by (simp add: CachingFrame_getOrientation_def callComputeOrientation_def Let_def)

lemma getOrientation_other_time:
  "t' \<noteq> t \<Longrightarrow>
   computed (snd (CachingFrame_getOrientation co t' (snd (CachingFrame_getOrientation co t s))))
     = t' # computed (snd (CachingFrame_getOrientation co t s))
   \<and> fst (CachingFrame_getOrientation co t' (snd (CachingFrame_getOrientation co t s))) = co t'"
  by (simp add: CachingFrame_getOrientation_def callComputeOrientation_def Let_def)

lemma cacheConsistent_new: "cacheConsistent co CachingFrame_new"
  by (simp add: cacheConsistent_def CachingFrame_new_def)

lemma getOrientation_consistent:
  "cacheConsistent co s \<Longrightarrow>
     fst (CachingFrame_getOrientation co t s) = co t
     \<and> cacheConsistent co (snd (CachingFrame_getOrientation co t s))"
  by (auto simp add: cacheConsistent_def CachingFrame_getOrientation_def
      callComputeOrientation_def Let_def)

lemma getAngularVelocity_consistent:
  "cacheConsistent co s \<Longrightarrow> cacheConsistent co (snd (CachingFrame_getAngularVelocity co t s))"
  by (auto simp add: cacheConsistent_def CachingFrame_getAngularVelocity_def
      CachingFrame_computeAngularVelocity_def CachingFrame_getOrientation_def
      callComputeOrientation_def Let_def split: prod.splits if_splits)

text \<open>
  C5: the claim is that, for every caching frame, two calls of \<open>getOrientation(t)\<close> in
  succession with the same \<open>t\<close> invoke \<open>computeOrientation\<close> exactly once, that a
  call with a different \<open>t\<close> computes again, and that the cached result is always
  what \<open>computeOrientation(t)\<close> gives. The last part fails inside
  \<open>getAngularVelocity\<close>: on a new frame, after \<open>getOrientation(0)\<close>, the call
  \<open>getAngularVelocity(1)\<close> sets \<open>lastTime\<close> to 1 before it calls
  \<open>computeAngularVelocity(1)\<close>, whose call \<open>getOrientation(1)\<close> then finds the time
  unchanged and the orientation cache valid and returns the orientation of time 0.
  \<open>computeOrientation\<close> is called for the times 0 and 1 + 1/1440 and never for time
  1, and the angular velocity returned for time 1 is differentiated from the
  orientations of the times 0 and 1 + 1/1440.
\<close>

theorem getAngularVelocity_reads_stale_orientation:
  "fst (CachingFrame_getOrientation co 1
          ((snd (CachingFrame_getOrientation co 0 CachingFrame_new))\<lparr>lastTime := 1\<rparr>)) = co 0
   \<and> computed (snd (CachingFrame_getAngularVelocity co 1
                      (snd (CachingFrame_getOrientation co 0 CachingFrame_new))))
       = [1 + 1 / 1440, 0]
   \<and> fst (CachingFrame_getAngularVelocity co 1
            (snd (CachingFrame_getOrientation co 0 CachingFrame_new)))
       = (let dq = qmul (conjugate (co 0)) (co (1 + 1 / 1440))
          in if \<bar>qw dq\<bar> > 99999999 / 100000000 then Vector3d_Zero
             else vscale (normalized (qvec dq)) (2 * arccos (qw dq) / (1 / 1440)))"
  by (simp add: CachingFrame_getAngularVelocity_def
      CachingFrame_computeAngularVelocity_def CachingFrame_getOrientation_def
      callComputeOrientation_def CachingFrame_new_def Let_def
      ANGULAR_VELOCITY_DIFF_DELTA_def)

subsection \<open>Nesting depth\<close>


lemma unat_plus_one:
  "unat d < 2 ^ 32 - 1 \<Longrightarrow> unat (d + 1 :: 32 word) = unat d + 1"
  by (simp add: unat_word_ariths)










text \<open>\<open>getFrameDepth\<close> in terms of \<open>frameOf\<close>, and chains that are cut short.\<close>

lemma andThen_cong_fun: "(\<And>w. f w = g w) \<Longrightarrow> andThen r f = andThen r g"
proof -
  assume "\<And>w. f w = g w"
  then have "f = g" by (rule ext)
  then show ?thesis by simp
qed

lemma getFrameDepth_unfold:
  "getFrameDepth (Suc fuel) bodies sel depth M ft =
     (if depth > M then Some (Depth depth)
      else case frameOf bodies sel ft of
             None \<Rightarrow> Some (Depth depth)
           | Some f \<Rightarrow>
               andThen (Frame_nestingDepth fuel bodies f (depth + 1) M ft)
                 (\<lambda>w. Some (Depth (if ft = PositionFrame \<and> w > M then w else max w depth))))"
proof (cases "depth > M")
  case True
  then show ?thesis by simp
next
  case False
  show ?thesis
  proof (cases "selectionBody sel")
    case None
    then have "(case Selection_location sel of Some l \<Rightarrow> getParentBody l
                | None \<Rightarrow> Selection_body sel) = None"
      by (simp add: selectionBody_def)
    with False None show ?thesis by (simp add: frameOf_def)
  next
    case (Some b)
    then have b: "(case Selection_location sel of Some l \<Rightarrow> getParentBody l
                   | None \<Rightarrow> Selection_body sel) = Some b"
      by (simp add: selectionBody_def)
    show ?thesis
    proof (cases ft)
      case PositionFrame
      show ?thesis
      proof (cases "getOrbitFrame0 (bodies b)")
        case None
        with False Some b PositionFrame show ?thesis
          by (simp add: frameOf_def split: option.splits)
      next
        case (Some f)
        with False \<open>selectionBody sel = Some b\<close> b PositionFrame show ?thesis
          by (auto simp: frameOf_def split: option.splits intro!: andThen_cong_fun)
      qed
    next
      case OrientationFrame
      show ?thesis
      proof (cases "getBodyFrame0 (bodies b)")
        case None
        with False Some b OrientationFrame show ?thesis
          by (simp add: frameOf_def split: option.splits)
      next
        case (Some f)
        with False \<open>selectionBody sel = Some b\<close> b OrientationFrame show ?thesis
          by (auto simp: frameOf_def max.commute split: option.splits intro!: andThen_cong_fun)
      qed
    qed
  qed
qed










text \<open>More fuel does not change what a call returns.\<close>

lemma andThen_Some:
  "andThen a f = Some out \<Longrightarrow>
     (a = Some NullFrame \<and> out = NullFrame) \<or> (\<exists>d. a = Some (Depth d) \<and> f d = Some out)"
  by (cases a; cases "the a") auto

lemma andThen_mono:
  assumes "andThen a f = Some out"
    and "\<And>x. a = Some x \<Longrightarrow> a' = Some x"
    and "\<And>d. a = Some (Depth d) \<Longrightarrow> f d = Some out \<Longrightarrow> f' d = Some out"
  shows "andThen a' f' = Some out"
  using andThen_Some [OF assms(1)] assms(2,3) by auto

lemma getFrameDepth_more_fuel:
  assumes rec: "\<And>f d ft out. Frame_nestingDepth n bodies f d M ft = Some out \<Longrightarrow>
                  Frame_nestingDepth n' bodies f d M ft = Some out"
    and run: "getFrameDepth (Suc n) bodies sel d M ft = Some out"
  shows "getFrameDepth (Suc n') bodies sel d M ft = Some out"
proof (cases "M < d")
  case True
  with run show ?thesis by simp
next
  case False
  show ?thesis
  proof (cases "case Selection_location sel of Some l \<Rightarrow> getParentBody l
                | None \<Rightarrow> Selection_body sel")
    case None
    with False run show ?thesis by simp
  next
    case (Some b)
    let ?A = "\<lambda>k. case getOrbitFrame0 (bodies b) of
                 Some orbitFrame \<Rightarrow>
                   if ft = PositionFrame
                   then Frame_nestingDepth k bodies orbitFrame (d + 1) M ft
                   else Some (Depth d)
               | None \<Rightarrow> Some (Depth d)"
    let ?B = "\<lambda>k. case getBodyFrame0 (bodies b) of
                 Some bodyFrame \<Rightarrow>
                   if ft = OrientationFrame
                   then Frame_nestingDepth k bodies bodyFrame (d + 1) M ft
                   else Some (Depth d)
               | None \<Rightarrow> Some (Depth d)"
    let ?f = "\<lambda>k orbitFrameDepth.
                 if getOrbitFrame0 (bodies b) \<noteq> None \<and> ft = PositionFrame
                    \<and> orbitFrameDepth > M
                 then Some (Depth orbitFrameDepth)
                 else andThen (?B k)
                        (\<lambda>bodyFrameDepth. Some (Depth (max orbitFrameDepth bodyFrameDepth)))"
    have 1: "andThen (?A n) (?f n) = Some out"
      using run False Some by simp
    have A: "?A n = Some x \<Longrightarrow> ?A n' = Some x" for x
      by (auto split: option.splits if_splits intro: rec)
    have B: "?B n = Some x \<Longrightarrow> ?B n' = Some x" for x
      by (auto split: option.splits if_splits intro: rec)
    have f: "?f n w = Some out \<Longrightarrow> ?f n' w = Some out" for w
    proof (cases "getOrbitFrame0 (bodies b) \<noteq> None \<and> ft = PositionFrame \<and> w > M")
      case True
      assume "?f n w = Some out"
      with True show ?thesis by simp
    next
      case False
      have eq: "?f k w = andThen (?B k) (\<lambda>bodyFrameDepth. Some (Depth (max w bodyFrameDepth)))"
        for k
        by (rule if_not_P [OF False])
      assume "?f n w = Some out"
      then have "andThen (?B n) (\<lambda>bodyFrameDepth. Some (Depth (max w bodyFrameDepth)))
                         = Some out"
        by (simp only: eq [of n])
      then have r: "andThen (?B n') (\<lambda>bodyFrameDepth. Some (Depth (max w bodyFrameDepth)))
                         = Some out"
        by (rule andThen_mono) (rule B, assumption)
      show ?thesis unfolding eq [of n'] by (rule r)
    qed
    have "andThen (?A n') (?f n') = Some out"
      by (rule andThen_mono [OF 1]) (rule A, assumption, rule f, assumption)
    then show ?thesis using False Some by simp
  qed
qed

lemma FrameVector_nestingDepth_more_fuel:
  assumes rec: "\<And>f d ft out. Frame_nestingDepth n bodies f d M ft = Some out \<Longrightarrow>
                  Frame_nestingDepth n' bodies f d M ft = Some out"
    and sel: "\<And>sel d ft out. getFrameDepth n bodies sel d M ft = Some out \<Longrightarrow>
                  getFrameDepth n' bodies sel d M ft = Some out"
    and "FrameVector_nestingDepth (Suc n) bodies fv d M = Some out"
  shows "FrameVector_nestingDepth (Suc n') bodies fv d M = Some out"
  using assms(3)
  by (cases fv) (auto split: option.splits if_splits dest: rec sel elim!: andThen_mono)

lemma Frame_nestingDepth_more_fuel:
  assumes vec: "\<And>fv d out. FrameVector_nestingDepth n bodies fv d M = Some out \<Longrightarrow>
                  FrameVector_nestingDepth n' bodies fv d M = Some out"
    and sel: "\<And>sel d ft out. getFrameDepth n bodies sel d M ft = Some out \<Longrightarrow>
                  getFrameDepth n' bodies sel d M ft = Some out"
    and "Frame_nestingDepth (Suc n) bodies frame d M ft = Some out"
  shows "Frame_nestingDepth (Suc n') bodies frame d M ft = Some out"
  using assms(3)
  apply (cases frame)
  apply (auto simp: Let_def split: option.splits if_splits dest: sel elim!: andThen_mono)
   apply (rule vec, assumption)
  apply (rule vec, assumption)
  done

lemma more_fuel:
  "(\<forall>sel d ft out. getFrameDepth n bodies sel d M ft = Some out \<longrightarrow>
        getFrameDepth (n + j) bodies sel d M ft = Some out)
   \<and> (\<forall>fv d out. FrameVector_nestingDepth n bodies fv d M = Some out \<longrightarrow>
        FrameVector_nestingDepth (n + j) bodies fv d M = Some out)
   \<and> (\<forall>f d ft out. Frame_nestingDepth n bodies f d M ft = Some out \<longrightarrow>
        Frame_nestingDepth (n + j) bodies f d M ft = Some out)"
proof (induction n)
  case 0
  show ?case by simp
next
  case (Suc n)
  from Suc.IH have
    sel: "\<And>sel d ft out. getFrameDepth n bodies sel d M ft = Some out \<Longrightarrow>
            getFrameDepth (n + j) bodies sel d M ft = Some out" and
    vec: "\<And>fv d out. FrameVector_nestingDepth n bodies fv d M = Some out \<Longrightarrow>
            FrameVector_nestingDepth (n + j) bodies fv d M = Some out" and
    rec: "\<And>f d ft out. Frame_nestingDepth n bodies f d M ft = Some out \<Longrightarrow>
            Frame_nestingDepth (n + j) bodies f d M ft = Some out"
    by blast+
  have "getFrameDepth (Suc (n + j)) bodies sel d M ft = Some out"
    if "getFrameDepth (Suc n) bodies sel d M ft = Some out" for sel d ft out
    using rec that by (rule getFrameDepth_more_fuel)
  moreover have "FrameVector_nestingDepth (Suc (n + j)) bodies fv d M = Some out"
    if "FrameVector_nestingDepth (Suc n) bodies fv d M = Some out" for fv d out
    using rec sel that by (rule FrameVector_nestingDepth_more_fuel)
  moreover have "Frame_nestingDepth (Suc (n + j)) bodies f d M ft = Some out"
    if "Frame_nestingDepth (Suc n) bodies f d M ft = Some out" for f d ft out
    using vec sel that by (rule Frame_nestingDepth_more_fuel)
  ultimately show ?case by simp
qed

lemma nestingDepth_more_fuel:
  "nestingDepth n bodies frame M ft = Some out \<Longrightarrow> n \<le> n' \<Longrightarrow>
   nestingDepth n' bodies frame M ft = Some out"
  using more_fuel [of n bodies M "n' - n"] by (simp add: nestingDepth_def)

text \<open>
  On the orbit frame centred on its own body the walk climbs to \<open>maxDepth + 1\<close>,
  whatever \<open>maxDepth\<close> below \<open>UINT_MAX\<close> is.
\<close>

lemma cycle_reaches_limit:
  assumes M: "unat maxDepth < 2 ^ 32 - 1"
  shows "unat depth \<le> unat maxDepth + 1 \<Longrightarrow> unat maxDepth + 1 - unat depth \<le> k \<Longrightarrow>
         getFrameDepth (2 * k + 1) cycleBodies (Selection_Body b) depth maxDepth PositionFrame
           = Some (Depth (maxDepth + 1))"
proof (induction k arbitrary: depth)
  case 0
  then have u: "unat depth = unat maxDepth + 1" by simp
  with M have "unat depth = unat (maxDepth + 1)" by (simp add: unat_plus_one)
  then have e: "depth = maxDepth + 1" by (simp add: word_unat_eq_iff)
  from u have "maxDepth < depth" by (simp add: word_less_nat_alt)
  then show ?case by (simp add: e)
next
  case (Suc k)
  show ?case
  proof (cases "maxDepth < depth")
    case True
    then have "unat maxDepth < unat depth" by (simp add: word_less_nat_alt)
    with Suc.prems(1) have u: "unat depth = unat maxDepth + 1" by simp
    with M have "unat depth = unat (maxDepth + 1)" by (simp add: unat_plus_one)
    then have e: "depth = maxDepth + 1" by (simp add: word_unat_eq_iff)
    from True show ?thesis by (simp add: e)
  next
    case False
    then have le: "unat depth \<le> unat maxDepth" by (simp add: word_less_nat_alt)
    with M have u: "unat (depth + 1) = unat depth + 1" by (simp add: unat_plus_one)
    have IH: "getFrameDepth (2 * k + 1) cycleBodies (Selection_Body b) (depth + 1) maxDepth
                PositionFrame = Some (Depth (maxDepth + 1))"
      using le Suc.prems(2) by (intro Suc.IH) (simp_all add: u)
    from M have "unat (maxDepth + 1) = unat maxDepth + 1" by (simp add: unat_plus_one)
    then have gt: "maxDepth < maxDepth + 1" by (simp add: word_less_nat_alt)
    have "2 * Suc k + 1 = Suc (Suc (2 * k + 1))" by simp
    then show ?thesis
      using False IH gt by (simp add: cycleBodies_def)
  qed
qed

lemma cycle_returns_limit:
  assumes "maxDepth < 4294967295" and "2 * unat maxDepth + 4 \<le> fuel"
  shows "nestingDepth fuel cycleBodies (J2000EclipticFrame (Selection_Body b)) maxDepth PositionFrame
           = Some (Depth (maxDepth + 1))"
proof -
  from assms(1) have M: "unat maxDepth < 2 ^ 32 - 1" by (simp add: word_less_nat_alt)
  have "getFrameDepth (2 * (unat maxDepth + 1) + 1) cycleBodies (Selection_Body b) 0 maxDepth
          PositionFrame = Some (Depth (maxDepth + 1))"
    by (rule cycle_reaches_limit [OF M]) simp_all
  moreover have "Frame_nestingDepth (Suc n) cycleBodies (J2000EclipticFrame c) 0 maxDepth
                   PositionFrame
                 = getFrameDepth n cycleBodies c 0 maxDepth PositionFrame" for n c
    by simp
  moreover have "2 * unat maxDepth + 4 = Suc (2 * (unat maxDepth + 1) + 1)" by simp
  ultimately have "nestingDepth (2 * unat maxDepth + 4) cycleBodies
               (J2000EclipticFrame (Selection_Body b)) maxDepth PositionFrame
             = Some (Depth (maxDepth + 1))"
    by (simp only: nestingDepth_def)
  then show ?thesis using assms(2) by (rule nestingDepth_more_fuel)
qed


lemma chain_of_three:
  "nestingDepth 36 chainBodies (J2000EclipticFrame (Selection_Body 2)) 10 PositionFrame
     = Some (Depth 3)"
  by code_simp

lemma chain_of_fifty:
  "nestingDepth 36 chainBodies (J2000EclipticFrame (Selection_Body 49)) 10 PositionFrame
     = Some (Depth 11)"
  by code_simp

lemma cycle_of_one:
  "nestingDepth 36 cycleBodies (J2000EclipticFrame (Selection_Body 0)) 10 PositionFrame
     = Some (Depth 11)"
  by code_simp

lemma cycle_through_vector:
  "nestingDepth 36 vectorCycleBodies (BodyFixedFrame (Selection_Star 0) (Selection_Body 0)) 10
       OrientationFrame
     = Some (Depth 11)"
  by code_simp


lemma framedBodies_cycleBodies: "framedBodies cycleBodies"
  by (simp add: framedBodies_def cycleBodies_def)

lemma framedBodies_vectorCycleBodies: "framedBodies vectorCycleBodies"
  by (simp add: framedBodies_def vectorCycleBodies_def)



text \<open>
  A two-vector frame whose primary vector is a constant vector without a frame:
  \<open>FrameVector::nestingDepth\<close> calls \<open>frame->nestingDepth\<close> through the null pointer,
  which \<open>FrameVector::direction\<close> checks for and \<open>nestingDepth\<close> does not. No depth
  is returned, whatever \<open>maxDepth\<close> is.
\<close>

lemma frameless_vector_NullFrame:
  "nestingDepth (Suc (Suc fuel)) bodies
     (TwoVectorFrame Selection_None (ConstantVector v None) 1 fv 2) maxDepth frameType
   = Some NullFrame"
  by (simp add: nestingDepth_def frameOf_def getFrameDepth_unfold selectionBody_def)




section \<open>Results: timeline phases\<close>

text \<open>
  C4: \<open>CreateTimelinePhase\<close> returns a null pointer, and leaves the universe as it
  was, whenever \<open>endTime <= startTime\<close> and whenever the centre of the orbit frame is
  neither a star nor a body. When \<open>startTime < endTime\<close> and the centre is a body or a
  star, it returns a phase whose owner is the frame tree of the body or of the solar
  system of the star, created if it was not there, and the phase is the last child of
  that tree; the other frame trees are as they were.
\<close>

theorem CreateTimelinePhase_contract:
  "(endTime \<le> startTime \<longrightarrow>
      CreateTimelinePhase u body startTime endTime orbitFrame orbit bodyFrame rotationModel
        = (None, u))
   \<and> (getType (getCenter orbitFrame) \<noteq> SelectionType_Star
        \<and> getType (getCenter orbitFrame) \<noteq> SelectionType_Body \<longrightarrow>
      CreateTimelinePhase u body startTime endTime orbitFrame orbit bodyFrame rotationModel
        = (None, u))
   \<and> (startTime < endTime \<longrightarrow>
        (\<forall>b. getCenter orbitFrame = Selection_Body b \<longrightarrow>
          (\<exists>phase u'.
             CreateTimelinePhase u body startTime endTime orbitFrame orbit bodyFrame rotationModel
               = (Some phase, u')
             \<and> m_owner phase = BodyFrameTree b
             \<and> bodyFrameTree u' b = Some (children u (BodyFrameTree b) @ [phase])
             \<and> (\<forall>b'. b' \<noteq> b \<longrightarrow> bodyFrameTree u' b' = bodyFrameTree u b')
             \<and> solarSystemFrameTree u' = solarSystemFrameTree u))
      \<and> (\<forall>s. getCenter orbitFrame = Selection_Star s \<longrightarrow>
          (\<exists>phase u'.
             CreateTimelinePhase u body startTime endTime orbitFrame orbit bodyFrame rotationModel
               = (Some phase, u')
             \<and> m_owner phase = SolarSystemFrameTree s
             \<and> solarSystemFrameTree u' s = Some (children u (SolarSystemFrameTree s) @ [phase])
             \<and> (\<forall>s'. s' \<noteq> s \<longrightarrow> solarSystemFrameTree u' s' = solarSystemFrameTree u s')
             \<and> bodyFrameTree u' = bodyFrameTree u)))"
proof -
  have 1: "endTime \<le> startTime \<Longrightarrow>
      CreateTimelinePhase u body startTime endTime orbitFrame orbit bodyFrame rotationModel
        = (None, u)"
    by (simp add: CreateTimelinePhase_def)
  have 2: "getType (getCenter orbitFrame) \<noteq> SelectionType_Star
        \<and> getType (getCenter orbitFrame) \<noteq> SelectionType_Body \<Longrightarrow>
      CreateTimelinePhase u body startTime endTime orbitFrame orbit bodyFrame rotationModel
        = (None, u)"
    by (cases "getCenter orbitFrame") (simp_all add: CreateTimelinePhase_def)
  have 3: "\<exists>phase u'.
             CreateTimelinePhase u body startTime endTime orbitFrame orbit bodyFrame rotationModel
               = (Some phase, u')
             \<and> m_owner phase = BodyFrameTree b
             \<and> bodyFrameTree u' b = Some (children u (BodyFrameTree b) @ [phase])
             \<and> (\<forall>b'. b' \<noteq> b \<longrightarrow> bodyFrameTree u' b' = bodyFrameTree u b')
             \<and> solarSystemFrameTree u' = solarSystemFrameTree u"
    if "startTime < endTime" "getCenter orbitFrame = Selection_Body b" for b
    using that
    by (cases "bodyFrameTree u b")
       (simp_all add: CreateTimelinePhase_def getOrCreateFrameTree_def addChild_def
          children_def Let_def)
  have 4: "\<exists>phase u'.
             CreateTimelinePhase u body startTime endTime orbitFrame orbit bodyFrame rotationModel
               = (Some phase, u')
             \<and> m_owner phase = SolarSystemFrameTree s
             \<and> solarSystemFrameTree u' s = Some (children u (SolarSystemFrameTree s) @ [phase])
             \<and> (\<forall>s'. s' \<noteq> s \<longrightarrow> solarSystemFrameTree u' s' = solarSystemFrameTree u s')
             \<and> bodyFrameTree u' = bodyFrameTree u"
    if "startTime < endTime" "getCenter orbitFrame = Selection_Star s" for s
    using that
    by (cases "solarSystemFrameTree u s")
       (simp_all add: CreateTimelinePhase_def getOrCreateSolarSystem_def addChild_def
          children_def Let_def)
  from 1 2 3 4 show ?thesis by blast
qed

theorem CreateTimelinePhase_contract_witness:
  "(5 :: real) \<le> 5
   \<and> CreateTimelinePhase emptyUniverse 1 5 5 (J2000EclipticFrame (Selection_Body 3)) 0
        (J2000EquatorFrame (Selection_Body 3)) 0 = (None, emptyUniverse)
   \<and> getType (getCenter (J2000EclipticFrame (Selection_DeepSky 7))) \<noteq> SelectionType_Star
   \<and> getType (getCenter (J2000EclipticFrame (Selection_DeepSky 7))) \<noteq> SelectionType_Body
   \<and> CreateTimelinePhase emptyUniverse 1 0 10 (J2000EclipticFrame (Selection_DeepSky 7)) 0
        (J2000EquatorFrame (Selection_Body 3)) 0 = (None, emptyUniverse)
   \<and> (0 :: real) < 10
   \<and> getCenter (J2000EclipticFrame (Selection_Body 3)) = Selection_Body 3
   \<and> (\<exists>phase u'.
         CreateTimelinePhase emptyUniverse 1 0 10 (J2000EclipticFrame (Selection_Body 3)) 0
           (J2000EquatorFrame (Selection_Body 3)) 0 = (Some phase, u')
         \<and> m_owner phase = BodyFrameTree 3
         \<and> bodyFrameTree u' 3 = Some (children emptyUniverse (BodyFrameTree 3) @ [phase]))
   \<and> getCenter (J2000EclipticFrame (Selection_Star 4)) = Selection_Star 4
   \<and> (\<exists>phase u'.
         CreateTimelinePhase emptyUniverse 1 0 10 (J2000EclipticFrame (Selection_Star 4)) 0
           (J2000EquatorFrame (Selection_Body 3)) 0 = (Some phase, u')
         \<and> m_owner phase = SolarSystemFrameTree 4
         \<and> solarSystemFrameTree u' 4
             = Some (children emptyUniverse (SolarSystemFrameTree 4) @ [phase]))"
  using CreateTimelinePhase_contract
          [of 5 5 emptyUniverse 1 "J2000EclipticFrame (Selection_Body 3)" 0
              "J2000EquatorFrame (Selection_Body 3)" 0]
        CreateTimelinePhase_contract
          [of 10 0 emptyUniverse 1 "J2000EclipticFrame (Selection_DeepSky 7)" 0
              "J2000EquatorFrame (Selection_Body 3)" 0]
        CreateTimelinePhase_contract
          [of 10 0 emptyUniverse 1 "J2000EclipticFrame (Selection_Body 3)" 0
              "J2000EquatorFrame (Selection_Body 3)" 0]
        CreateTimelinePhase_contract
          [of 10 0 emptyUniverse 1 "J2000EclipticFrame (Selection_Star 4)" 0
              "J2000EquatorFrame (Selection_Body 3)" 0]
  by simp blast

end
